theory Spec2Isabelle
  imports Complex_Main
begin

section \<open>Values, exceptions and results\<close>

text \<open>
  The SDK moves untyped Python data (the \<^verbatim>\<open>Dict[str, Any]\<close> of the signatures) into
  model instances. A dictionary is an association list, read with \<open>map_of\<close>;
  \<open>VFloat q\<close> stands for the double nearest to \<open>q\<close>, \<open>VDatetime\<close> for a
  \<^verbatim>\<open>datetime(year, month, day, hour, minute, second)\<close> object and \<open>VObj n\<close> for
  an object that is not data (a class, a typing construct), named by the identifier bound to it.
\<close>

datatype pyval =
    VNone
  | VBool bool
  | VInt int
  | VFloat rat
  | VStr string
  | VDatetime nat nat nat nat nat nat
  | VList "pyval list"
  | VDict "(string \<times> pyval) list"
  | VObj string

text \<open>
  One entry of a validation error: the path into the data (keys and list positions), the
  message and the offending input.
\<close>

datatype loc_item = Key string | Idx nat

datatype line_error = LineError (loc: "loc_item list") (msg: string) (input: pyval)

text \<open>The exceptions the package can raise or let through.\<close>

datatype exn =
    ValidationError "line_error list"
  | NameError string
  | AttributeError string
  | KeyError string
  | HTTPStatusError nat
  | TransportError string
  | JSONDecodeError

section \<open>Model classes\<close>

text \<open>
  The annotations of \<^verbatim>\<open>models.py\<close>: \<^verbatim>\<open>str\<close>, \<^verbatim>\<open>int\<close>, \<^verbatim>\<open>float\<close>, \<^verbatim>\<open>bool\<close>,
  \<^verbatim>\<open>datetime\<close>, \<^verbatim>\<open>Any\<close>, \<^verbatim>\<open>Literal[...]\<close>, \<^verbatim>\<open>List[t]\<close>, \<^verbatim>\<open>Dict[str, t]\<close>,
  \<^verbatim>\<open>Optional[t]\<close> and \<^verbatim>\<open>Union[...]\<close> (a \<^verbatim>\<open>None\<close> member of a union is \<open>TNone\<close>).
\<close>

datatype scalar = SStr | SInt | SFloat | SBool | SDatetime

datatype ftype =
    TScalar scalar
  | TAny
  | TNone
  | TLiteral "string list"
  | TList ftype
  | TDict ftype
  | TOptional ftype
  | TUnion "ftype list"

abbreviation TStr :: ftype where "TStr \<equiv> TScalar SStr"
abbreviation TInt :: ftype where "TInt \<equiv> TScalar SInt"
abbreviation TFloat :: ftype where "TFloat \<equiv> TScalar SFloat"
abbreviation TBool :: ftype where "TBool \<equiv> TScalar SBool"
abbreviation TDatetime :: ftype where "TDatetime \<equiv> TScalar SDatetime"

text \<open>
  A model class as it exists once its \<^verbatim>\<open>class\<close> statement has run: its name, the
  \<^verbatim>\<open>required\<close> list of its \<^verbatim>\<open>json_schema_extra\<close> (when the class sets a
  \<^verbatim>\<open>model_config\<close>) and its fields in declaration order, each with its type and, when it
  has one, its default value. A field without a default is required.
\<close>

datatype field = FieldInfo (fname: string) (ftyp: ftype) (fdefault: "pyval option")

datatype py_class =
  PyClass (cname: string) (schema_required: "string list option") (cfields: "field list")

definition required_fields :: "py_class \<Rightarrow> string list" where
  "required_fields c = map fname (filter (\<lambda>f. fdefault f = None) (cfields c))"

definition declared_fields :: "py_class \<Rightarrow> string list" where
  "declared_fields c = map fname (cfields c)"

text \<open>A validated instance: the class it belongs to and the value of every declared field.\<close>

datatype model_instance = Instance (inst_class: string) (inst_fields: "(string \<times> pyval) list")

definition attr :: "model_instance \<Rightarrow> string \<Rightarrow> pyval option" where
  "attr i n = map_of (inst_fields i) n"

section \<open>The class statements of models.py\<close>

text \<open>
  A class of \<^verbatim>\<open>models.py\<close> exists only after its \<^verbatim>\<open>class\<close> statement has run, and
  running it evaluates the default expressions of its body. The declarations are therefore
  kept as the source writes them, with the defaults as expressions: \<^verbatim>\<open>None\<close>, integer and
  string constants, list and dictionary displays, and identifiers.
\<close>

datatype expr =
    ENone
  | EInt int
  | EStr string
  | EList "expr list"
  | EDict "(string \<times> expr) list"
  | EName string

text \<open>
  A field is declared with no default (\<^verbatim>\<open>name: type\<close>), with a plain value
  (\<^verbatim>\<open>name: type = e\<close>) or through \<^verbatim>\<open>name: type = Field(default=e)\<close>.
\<close>

datatype default_src = NoDefault | Assign expr | FieldDefault expr

datatype field_decl = FieldDecl string ftype default_src

datatype class_decl =
  ClassDecl (dname: string) (dconfig: "string list option") (dfields: "field_decl list")

text \<open>
  Evaluation in a scope, the list of the identifiers that are bound: an identifier that is
  bound denotes its object, one that is not raises \<^verbatim>\<open>NameError\<close>. The parts of a display
  are evaluated from left to right and the first exception ends the evaluation.
\<close>

fun eval_expr :: "string list \<Rightarrow> expr \<Rightarrow> exn + pyval"
  and eval_exprs :: "string list \<Rightarrow> expr list \<Rightarrow> exn + pyval list"
  and eval_items :: "string list \<Rightarrow> (string \<times> expr) list \<Rightarrow> exn + (string \<times> pyval) list" where
  "eval_expr sc ENone = Inr VNone"
| "eval_expr sc (EInt n) = Inr (VInt n)"
| "eval_expr sc (EStr s) = Inr (VStr s)"
| "eval_expr sc (EList es) =
     (case eval_exprs sc es of Inl x \<Rightarrow> Inl x | Inr vs \<Rightarrow> Inr (VList vs))"
| "eval_expr sc (EDict kes) =
     (case eval_items sc kes of Inl x \<Rightarrow> Inl x | Inr kvs \<Rightarrow> Inr (VDict kvs))"
| "eval_expr sc (EName n) = (if n \<in> set sc then Inr (VObj n) else Inl (NameError n))"
| "eval_exprs sc [] = Inr []"
| "eval_exprs sc (e # es) =
     (case eval_expr sc e of
        Inl x \<Rightarrow> Inl x
      | Inr v \<Rightarrow> (case eval_exprs sc es of Inl x \<Rightarrow> Inl x | Inr vs \<Rightarrow> Inr (v # vs)))"
| "eval_items sc [] = Inr []"
| "eval_items sc ((k, e) # kes) =
     (case eval_expr sc e of
        Inl x \<Rightarrow> Inl x
      | Inr v \<Rightarrow> (case eval_items sc kes of Inl x \<Rightarrow> Inl x | Inr kvs \<Rightarrow> Inr ((k, v) # kvs)))"

text \<open>
  The body of a class runs statement by statement. An annotation alone binds nothing; an
  annotated assignment evaluates its right-hand side (for \<^verbatim>\<open>Field(default=e)\<close> the
  identifier \<^verbatim>\<open>Field\<close>, then \<open>e\<close>) and binds the field's name in the class scope.
\<close>

fun exec_fields :: "string list \<Rightarrow> field_decl list \<Rightarrow> exn + field list" where
  "exec_fields sc [] = Inr []"
| "exec_fields sc (FieldDecl n t NoDefault # fs) =
     (case exec_fields sc fs of Inl x \<Rightarrow> Inl x | Inr r \<Rightarrow> Inr (FieldInfo n t None # r))"
| "exec_fields sc (FieldDecl n t (Assign e) # fs) =
     (case eval_expr sc e of
        Inl x \<Rightarrow> Inl x
      | Inr v \<Rightarrow>
          (case exec_fields (n # sc) fs of
             Inl x \<Rightarrow> Inl x
           | Inr r \<Rightarrow> Inr (FieldInfo n t (Some v) # r)))"
| "exec_fields sc (FieldDecl n t (FieldDefault e) # fs) =
     (if ''Field'' \<notin> set sc then Inl (NameError ''Field'')
      else case eval_expr sc e of
        Inl x \<Rightarrow> Inl x
      | Inr v \<Rightarrow>
          (case exec_fields (n # sc) fs of
             Inl x \<Rightarrow> Inl x
           | Inr r \<Rightarrow> Inr (FieldInfo n t (Some v) # r)))"

text \<open>
  \<^verbatim>\<open>class C(BaseModel):\<close> with its docstring, its \<^verbatim>\<open>model_config = ConfigDict(...)\<close>
  when there is one, and its fields.
\<close>

definition exec_class :: "string list \<Rightarrow> class_decl \<Rightarrow> exn + py_class" where
  "exec_class sc d =
     (if ''BaseModel'' \<notin> set sc then Inl (NameError ''BaseModel'')
      else if dconfig d \<noteq> None \<and> ''ConfigDict'' \<notin> set sc then Inl (NameError ''ConfigDict'')
      else case exec_fields
                  ((if dconfig d \<noteq> None then [''model_config''] else [])
                   @ [''__module__'', ''__qualname__'', ''__doc__''] @ sc)
                  (dfields d) of
             Inl x \<Rightarrow> Inl x
           | Inr fs \<Rightarrow> Inr (PyClass (dname d) (dconfig d) fs))"

text \<open>
  A module runs its class statements in order; each class that is created is bound to its
  name, and the first exception ends the import.
\<close>

fun exec_module :: "string list \<Rightarrow> class_decl list \<Rightarrow> exn + (string \<times> py_class) list" where
  "exec_module sc [] = Inr []"
| "exec_module sc (d # ds) =
     (case exec_class sc d of
        Inl x \<Rightarrow> Inl x
      | Inr c \<Rightarrow>
          (case exec_module (dname d # sc) ds of
             Inl x \<Rightarrow> Inl x
           | Inr ns \<Rightarrow> Inr ((dname d, c) # ns)))"

text \<open>The names of Python's \<^verbatim>\<open>builtins\<close> module.\<close>

definition builtin_names :: "string list" where
  "builtin_names =
    [''ArithmeticError'', ''AssertionError'', ''AttributeError'', ''BaseException'',
     ''BaseExceptionGroup'', ''BlockingIOError'', ''BrokenPipeError'', ''BufferError'',
     ''BytesWarning'', ''ChildProcessError'', ''ConnectionAbortedError'', ''ConnectionError'',
     ''ConnectionRefusedError'', ''ConnectionResetError'', ''DeprecationWarning'', ''EOFError'',
     ''Ellipsis'', ''EncodingWarning'', ''EnvironmentError'', ''Exception'', ''ExceptionGroup'',
     ''False'', ''FileExistsError'', ''FileNotFoundError'', ''FloatingPointError'',
     ''FutureWarning'', ''GeneratorExit'', ''IOError'', ''ImportError'', ''ImportWarning'',
     ''IndentationError'', ''IndexError'', ''InterruptedError'', ''IsADirectoryError'',
     ''KeyError'', ''KeyboardInterrupt'', ''LookupError'', ''MemoryError'',
     ''ModuleNotFoundError'', ''NameError'', ''None'', ''NotADirectoryError'',
     ''NotImplemented'', ''NotImplementedError'', ''OSError'', ''OverflowError'',
     ''PendingDeprecationWarning'', ''PermissionError'', ''ProcessLookupError'',
     ''RecursionError'', ''ReferenceError'', ''ResourceWarning'', ''RuntimeError'',
     ''RuntimeWarning'', ''StopAsyncIteration'', ''StopIteration'', ''SyntaxError'',
     ''SyntaxWarning'', ''SystemError'', ''SystemExit'', ''TabError'', ''TimeoutError'',
     ''True'', ''TypeError'', ''UnboundLocalError'', ''UnicodeDecodeError'',
     ''UnicodeEncodeError'', ''UnicodeError'', ''UnicodeTranslateError'', ''UnicodeWarning'',
     ''UserWarning'', ''ValueError'', ''Warning'', ''ZeroDivisionError'', ''__build_class__'',
     ''__debug__'', ''__doc__'', ''__import__'', ''__loader__'', ''__name__'', ''__package__'',
     ''__spec__'', ''abs'', ''aiter'', ''all'', ''anext'', ''any'', ''ascii'', ''bin'',
     ''bool'', ''breakpoint'', ''bytearray'', ''bytes'', ''callable'', ''chr'', ''classmethod'',
     ''compile'', ''complex'', ''copyright'', ''credits'', ''delattr'', ''dict'', ''dir'',
     ''divmod'', ''enumerate'', ''eval'', ''exec'', ''exit'', ''filter'', ''float'', ''format'',
     ''frozenset'', ''getattr'', ''globals'', ''hasattr'', ''hash'', ''help'', ''hex'', ''id'',
     ''input'', ''int'', ''isinstance'', ''issubclass'', ''iter'', ''len'', ''license'',
     ''list'', ''locals'', ''map'', ''max'', ''memoryview'', ''min'', ''next'', ''object'',
     ''oct'', ''open'', ''ord'', ''pow'', ''print'', ''property'', ''quit'', ''range'',
     ''repr'', ''reversed'', ''round'', ''set'', ''setattr'', ''slice'', ''sorted'',
     ''staticmethod'', ''str'', ''sum'', ''super'', ''tuple'', ''type'', ''vars'', ''zip'']"

text \<open>
  The names bound at the top of \<^verbatim>\<open>models.py\<close> before its first class: the module
  attributes and the names its four \<^verbatim>\<open>import\<close> lines bring in.
\<close>

definition models_globals :: "string list" where
  "models_globals =
    [''__name__'', ''__doc__'', ''__package__'', ''__loader__'', ''__spec__'', ''__file__'',
     ''__cached__'', ''__builtins__'',
     ''annotations'', ''datetime'',
     ''Any'', ''Dict'', ''List'', ''Optional'', ''Union'', ''Literal'', ''TypeVar'', ''Generic'',
     ''BaseModel'', ''Field'', ''ConfigDict'']"

subsection \<open>The declarations\<close>

definition ErrorSeverity_decl :: class_decl where
  "ErrorSeverity_decl = ClassDecl ''ErrorSeverity''
     None
     [FieldDecl ''value'' (TLiteral [''fatal'', ''error'', ''warning'', ''info'']) NoDefault]"

definition ErrorCategory_decl :: class_decl where
  "ErrorCategory_decl = ClassDecl ''ErrorCategory''
     None
     [FieldDecl ''value'' (TLiteral [''VALIDATION_ERROR'', ''SCHEMA_MISMATCH'', ''RUNTIME_ERROR'',
          ''TIMEOUT'', ''NETWORK_ERROR'', ''AUTHENTICATION_ERROR'', ''AUTHORIZATION_ERROR'',
          ''RESOURCE_NOT_FOUND'', ''RESOURCE_CONFLICT'', ''RATE_LIMITED'',
          ''SERVICE_UNAVAILABLE'', ''RUNNER_ERROR'', ''TRUTHCORE_ERROR'',
          ''INTERNAL_ERROR'']) NoDefault]"

definition RetryPolicy_decl :: class_decl where
  "RetryPolicy_decl = ClassDecl ''RetryPolicy''
     None
     [FieldDecl ''maxRetries'' TInt (FieldDefault (EInt 3)),
      FieldDecl ''backoffMs'' TFloat (FieldDefault (EInt 1000)),
      FieldDecl ''maxBackoffMs'' TFloat (FieldDefault (EInt 30000)),
      FieldDecl ''backoffMultiplier'' TFloat (FieldDefault (EInt 2)),
      FieldDecl ''retryableCategories'' (TList (TLiteral [''VALIDATION_ERROR'', ''SCHEMA_MISMATCH'',
          ''RUNTIME_ERROR'', ''TIMEOUT'', ''NETWORK_ERROR'', ''AUTHENTICATION_ERROR'',
          ''AUTHORIZATION_ERROR'', ''RESOURCE_NOT_FOUND'', ''RESOURCE_CONFLICT'',
          ''RATE_LIMITED'', ''SERVICE_UNAVAILABLE'', ''RUNNER_ERROR'', ''TRUTHCORE_ERROR'',
          ''INTERNAL_ERROR''])) (FieldDefault (EList [EStr ''TIMEOUT'', EStr ''NETWORK_ERROR'',
          EStr ''SERVICE_UNAVAILABLE'', EStr ''RUNTIME_ERROR''])),
      FieldDecl ''nonRetryableCategories'' (TList (TLiteral [''VALIDATION_ERROR'',
          ''SCHEMA_MISMATCH'', ''RUNTIME_ERROR'', ''TIMEOUT'', ''NETWORK_ERROR'',
          ''AUTHENTICATION_ERROR'', ''AUTHORIZATION_ERROR'', ''RESOURCE_NOT_FOUND'',
          ''RESOURCE_CONFLICT'', ''RATE_LIMITED'', ''SERVICE_UNAVAILABLE'', ''RUNNER_ERROR'',
          ''TRUTHCORE_ERROR'',
          ''INTERNAL_ERROR''])) (FieldDefault (EList [EStr ''VALIDATION_ERROR'',
          EStr ''SCHEMA_MISMATCH'', EStr ''AUTHENTICATION_ERROR'', EStr ''AUTHORIZATION_ERROR'',
          EStr ''RESOURCE_NOT_FOUND'']))]"

definition ErrorDetail_decl :: class_decl where
  "ErrorDetail_decl = ClassDecl ''ErrorDetail''
     (Some [''message''])
     [FieldDecl ''path'' (TOptional (TList TStr)) (Assign ENone),
      FieldDecl ''message'' TStr NoDefault,
      FieldDecl ''code'' (TOptional TStr) (Assign ENone),
      FieldDecl ''value'' (TOptional TAny) (Assign ENone)]"

definition ErrorEnvelope_decl :: class_decl where
  "ErrorEnvelope_decl = ClassDecl ''ErrorEnvelope''
     (Some [''id'', ''timestamp'', ''category'', ''severity'', ''code'', ''message'',
        ''service'', ''contractVersion''])
     [FieldDecl ''id'' TStr NoDefault,
      FieldDecl ''timestamp'' TDatetime NoDefault,
      FieldDecl ''category'' (TLiteral [''VALIDATION_ERROR'', ''SCHEMA_MISMATCH'', ''RUNTIME_ERROR'',
          ''TIMEOUT'', ''NETWORK_ERROR'', ''AUTHENTICATION_ERROR'', ''AUTHORIZATION_ERROR'',
          ''RESOURCE_NOT_FOUND'', ''RESOURCE_CONFLICT'', ''RATE_LIMITED'',
          ''SERVICE_UNAVAILABLE'', ''RUNNER_ERROR'', ''TRUTHCORE_ERROR'',
          ''INTERNAL_ERROR'']) NoDefault,
      FieldDecl ''severity'' (TLiteral [''fatal'', ''error'', ''warning'', ''info'']) NoDefault,
      FieldDecl ''code'' TStr NoDefault,
      FieldDecl ''message'' TStr NoDefault,
      FieldDecl ''details'' (TList (TDict TAny)) (FieldDefault (EList [])),
      FieldDecl ''service'' TStr NoDefault,
      FieldDecl ''operation'' (TOptional TStr) (Assign ENone),
      FieldDecl ''correlationId'' (TOptional TStr) (Assign ENone),
      FieldDecl ''causationId'' (TOptional TStr) (Assign ENone),
      FieldDecl ''retryable'' TBool (FieldDefault (EName ''false'')),
      FieldDecl ''retryAfter'' (TOptional TFloat) (Assign ENone),
      FieldDecl ''contractVersion'' (TDict TAny) NoDefault]"

definition ContractVersion_decl :: class_decl where
  "ContractVersion_decl = ClassDecl ''ContractVersion''
     (Some [''major'', ''minor'', ''patch''])
     [FieldDecl ''major'' TInt NoDefault,
      FieldDecl ''minor'' TInt NoDefault,
      FieldDecl ''patch'' TInt NoDefault,
      FieldDecl ''preRelease'' (TOptional TStr) (Assign ENone)]"

definition ContractRange_decl :: class_decl where
  "ContractRange_decl = ClassDecl ''ContractRange''
     (Some [''min''])
     [FieldDecl ''min'' (TDict TAny) NoDefault,
      FieldDecl ''max'' (TOptional (TDict TAny)) (Assign ENone),
      FieldDecl ''exact'' (TOptional (TDict TAny)) (Assign ENone)]"

definition JobId_decl :: class_decl where
  "JobId_decl = ClassDecl ''JobId''
     None
     [FieldDecl ''value'' TAny NoDefault]"

definition JobStatus_decl :: class_decl where
  "JobStatus_decl = ClassDecl ''JobStatus''
     None
     [FieldDecl ''value'' (TLiteral [''pending'', ''queued'', ''running'', ''completed'', ''failed'',
          ''cancelled'', ''retrying'']) NoDefault]"

definition JobPriority_decl :: class_decl where
  "JobPriority_decl = ClassDecl ''JobPriority''
     None
     [FieldDecl ''value'' TAny NoDefault]"

definition JobMetadata_decl :: class_decl where
  "JobMetadata_decl = ClassDecl ''JobMetadata''
     (Some [''source'', ''createdAt''])
     [FieldDecl ''source'' TStr NoDefault,
      FieldDecl ''userId'' (TOptional TStr) (Assign ENone),
      FieldDecl ''sessionId'' (TOptional TStr) (Assign ENone),
      FieldDecl ''correlationId'' (TOptional TStr) (Assign ENone),
      FieldDecl ''causationId'' (TOptional TStr) (Assign ENone),
      FieldDecl ''tags'' (TList TStr) (FieldDefault (EList [])),
      FieldDecl ''createdAt'' TDatetime NoDefault,
      FieldDecl ''scheduledAt'' (TOptional TDatetime) (Assign ENone),
      FieldDecl ''expiresAt'' (TOptional TDatetime) (Assign ENone)]"

definition JobPayload_decl :: class_decl where
  "JobPayload_decl = ClassDecl ''JobPayload''
     (Some [''type'', ''data''])
     [FieldDecl ''type'' TStr NoDefault,
      FieldDecl ''version'' TStr (FieldDefault (EStr ''1.0.0'')),
      FieldDecl ''data'' (TDict TAny) NoDefault,
      FieldDecl ''options'' (TDict TAny) (FieldDefault (EDict []))]"

definition JobRequest_decl :: class_decl where
  "JobRequest_decl = ClassDecl ''JobRequest''
     (Some [''id'', ''type'', ''payload'', ''metadata''])
     [FieldDecl ''id'' TStr NoDefault,
      FieldDecl ''type'' TStr NoDefault,
      FieldDecl ''priority'' TInt (FieldDefault (EInt 50)),
      FieldDecl ''payload'' (TDict TAny) NoDefault,
      FieldDecl ''metadata'' (TDict TAny) NoDefault,
      FieldDecl ''retryPolicy'' (TDict TAny) (FieldDefault (EDict [(''maxRetries'', EInt 3),
          (''backoffMs'', EInt 1000), (''maxBackoffMs'', EInt 30000), (''backoffMultiplier'',
          EInt 2), (''retryableCategories'', EList []), (''nonRetryableCategories'',
          EList [])])),
      FieldDecl ''timeoutMs'' TFloat (FieldDefault (EInt 30000))]"

definition JobResult_decl :: class_decl where
  "JobResult_decl = ClassDecl ''JobResult''
     (Some [''success'', ''metadata''])
     [FieldDecl ''success'' TBool NoDefault,
      FieldDecl ''data'' (TOptional TAny) (Assign ENone),
      FieldDecl ''error'' (TOptional (TDict TAny)) (Assign ENone),
      FieldDecl ''metadata'' (TDict TAny) NoDefault]"

definition JobResponse_decl :: class_decl where
  "JobResponse_decl = ClassDecl ''JobResponse''
     (Some [''id'', ''status'', ''request'', ''updatedAt''])
     [FieldDecl ''id'' TStr NoDefault,
      FieldDecl ''status'' (TLiteral [''pending'', ''queued'', ''running'', ''completed'', ''failed'',
          ''cancelled'', ''retrying'']) NoDefault,
      FieldDecl ''request'' (TDict TAny) NoDefault,
      FieldDecl ''result'' (TOptional (TDict TAny)) (Assign ENone),
      FieldDecl ''error'' (TOptional (TDict TAny)) (Assign ENone),
      FieldDecl ''updatedAt'' TDatetime NoDefault]"

definition RunnerCapability_decl :: class_decl where
  "RunnerCapability_decl = ClassDecl ''RunnerCapability''
     (Some [''id'', ''name'', ''version'', ''description'', ''inputSchema'', ''outputSchema'',
        ''supportedJobTypes''])
     [FieldDecl ''id'' TStr NoDefault,
      FieldDecl ''name'' TStr NoDefault,
      FieldDecl ''version'' TStr NoDefault,
      FieldDecl ''description'' TStr NoDefault,
      FieldDecl ''inputSchema'' (TDict TAny) NoDefault,
      FieldDecl ''outputSchema'' (TDict TAny) NoDefault,
      FieldDecl ''supportedJobTypes'' (TList TStr) NoDefault,
      FieldDecl ''maxConcurrency'' TInt (FieldDefault (EInt 1)),
      FieldDecl ''timeoutMs'' TFloat (FieldDefault (EInt 30000)),
      FieldDecl ''resourceRequirements'' (TDict TAny) (FieldDefault (EDict []))]"

definition RunnerMetadata_decl :: class_decl where
  "RunnerMetadata_decl = ClassDecl ''RunnerMetadata''
     (Some [''id'', ''name'', ''version'', ''contractVersion'', ''capabilities'',
        ''supportedContracts'', ''healthCheckEndpoint'', ''registeredAt'', ''lastHeartbeatAt''])
     [FieldDecl ''id'' TStr NoDefault,
      FieldDecl ''name'' TStr NoDefault,
      FieldDecl ''version'' TStr NoDefault,
      FieldDecl ''contractVersion'' (TDict TAny) NoDefault,
      FieldDecl ''capabilities'' (TList (TDict TAny)) NoDefault,
      FieldDecl ''supportedContracts'' (TList TStr) NoDefault,
      FieldDecl ''healthCheckEndpoint'' TStr NoDefault,
      FieldDecl ''registeredAt'' TDatetime NoDefault,
      FieldDecl ''lastHeartbeatAt'' TDatetime NoDefault,
      FieldDecl ''status'' (TLiteral [''healthy'', ''degraded'', ''unhealthy'',
          ''offline'']) (FieldDefault (EStr ''healthy'')),
      FieldDecl ''tags'' (TList TStr) (FieldDefault (EList []))]"

definition RunnerRegistrationRequest_decl :: class_decl where
  "RunnerRegistrationRequest_decl = ClassDecl ''RunnerRegistrationRequest''
     (Some [''name'', ''version'', ''contractVersion'', ''capabilities'',
        ''healthCheckEndpoint''])
     [FieldDecl ''name'' TStr NoDefault,
      FieldDecl ''version'' TStr NoDefault,
      FieldDecl ''contractVersion'' (TDict TAny) NoDefault,
      FieldDecl ''capabilities'' (TList (TDict TAny)) NoDefault,
      FieldDecl ''healthCheckEndpoint'' TStr NoDefault,
      FieldDecl ''tags'' (TList TStr) (FieldDefault (EList []))]"

definition RunnerRegistrationResponse_decl :: class_decl where
  "RunnerRegistrationResponse_decl = ClassDecl ''RunnerRegistrationResponse''
     (Some [''runnerId'', ''registeredAt''])
     [FieldDecl ''runnerId'' TStr NoDefault,
      FieldDecl ''registeredAt'' TDatetime NoDefault,
      FieldDecl ''heartbeatIntervalMs'' TFloat (FieldDefault (EInt 30000))]"

definition RunnerHeartbeat_decl :: class_decl where
  "RunnerHeartbeat_decl = ClassDecl ''RunnerHeartbeat''
     (Some [''runnerId'', ''timestamp'', ''status''])
     [FieldDecl ''runnerId'' TStr NoDefault,
      FieldDecl ''timestamp'' TDatetime NoDefault,
      FieldDecl ''status'' (TLiteral [''healthy'', ''degraded'', ''unhealthy'']) NoDefault,
      FieldDecl ''activeJobs'' TInt (FieldDefault (EInt 0)),
      FieldDecl ''queuedJobs'' TInt (FieldDefault (EInt 0)),
      FieldDecl ''metrics'' (TDict TAny) (FieldDefault (EDict []))]"

definition ModuleManifest_decl :: class_decl where
  "ModuleManifest_decl = ClassDecl ''ModuleManifest''
     (Some [''id'', ''name'', ''version'', ''description'', ''entryPoint'', ''contractVersion'',
        ''capabilities''])
     [FieldDecl ''id'' TStr NoDefault,
      FieldDecl ''name'' TStr NoDefault,
      FieldDecl ''version'' TStr NoDefault,
      FieldDecl ''description'' TStr NoDefault,
      FieldDecl ''entryPoint'' TStr NoDefault,
      FieldDecl ''contractVersion'' (TDict TAny) NoDefault,
      FieldDecl ''capabilities'' (TList (TDict TAny)) NoDefault,
      FieldDecl ''dependencies'' (TList TStr) (FieldDefault (EList [])),
      FieldDecl ''configSchema'' (TOptional (TDict TAny)) (Assign ENone),
      FieldDecl ''defaultConfig'' (TDict TAny) (FieldDefault (EDict []))]"

definition RunnerExecutionRequest_decl :: class_decl where
  "RunnerExecutionRequest_decl = ClassDecl ''RunnerExecutionRequest''
     (Some [''jobId'', ''moduleId'', ''capabilityId'', ''payload''])
     [FieldDecl ''jobId'' TStr NoDefault,
      FieldDecl ''moduleId'' TStr NoDefault,
      FieldDecl ''capabilityId'' TStr NoDefault,
      FieldDecl ''payload'' (TDict TAny) NoDefault,
      FieldDecl ''timeoutMs'' TFloat (FieldDefault (EInt 30000)),
      FieldDecl ''metadata'' (TDict TAny) (FieldDefault (EDict []))]"

definition RunnerExecutionResponse_decl :: class_decl where
  "RunnerExecutionResponse_decl = ClassDecl ''RunnerExecutionResponse''
     (Some [''jobId'', ''success'', ''executionTimeMs'', ''runnerId''])
     [FieldDecl ''jobId'' TStr NoDefault,
      FieldDecl ''success'' TBool NoDefault,
      FieldDecl ''data'' (TOptional TAny) (Assign ENone),
      FieldDecl ''error'' (TOptional (TDict TAny)) (Assign ENone),
      FieldDecl ''executionTimeMs'' TFloat NoDefault,
      FieldDecl ''runnerId'' TStr NoDefault]"

definition TruthAssertion_decl :: class_decl where
  "TruthAssertion_decl = ClassDecl ''TruthAssertion''
     (Some [''id'', ''subject'', ''predicate'', ''object'', ''timestamp'', ''source''])
     [FieldDecl ''id'' TStr NoDefault,
      FieldDecl ''subject'' TStr NoDefault,
      FieldDecl ''predicate'' TStr NoDefault,
      FieldDecl ''object'' (TUnion [TStr, TFloat, TBool, TNone, TList TAny, TDict TAny]) NoDefault,
      FieldDecl ''confidence'' TFloat (FieldDefault (EInt 1)),
      FieldDecl ''timestamp'' TDatetime NoDefault,
      FieldDecl ''source'' TStr NoDefault,
      FieldDecl ''expiresAt'' (TOptional TDatetime) (Assign ENone),
      FieldDecl ''metadata'' (TDict TAny) (FieldDefault (EDict []))]"

definition TruthQuery_decl :: class_decl where
  "TruthQuery_decl = ClassDecl ''TruthQuery''
     (Some [''id'', ''pattern''])
     [FieldDecl ''id'' TStr NoDefault,
      FieldDecl ''pattern'' (TDict TAny) NoDefault,
      FieldDecl ''filters'' (TDict TAny) (FieldDefault (EDict [])),
      FieldDecl ''limit'' TInt (FieldDefault (EInt 100)),
      FieldDecl ''offset'' TInt (FieldDefault (EInt 0))]"

definition TruthQueryResult_decl :: class_decl where
  "TruthQueryResult_decl = ClassDecl ''TruthQueryResult''
     (Some [''queryId'', ''assertions'', ''totalCount'', ''queryTimeMs''])
     [FieldDecl ''queryId'' TStr NoDefault,
      FieldDecl ''assertions'' (TList (TDict TAny)) NoDefault,
      FieldDecl ''totalCount'' TInt NoDefault,
      FieldDecl ''hasMore'' TBool (FieldDefault (EName ''false'')),
      FieldDecl ''queryTimeMs'' TFloat NoDefault]"

definition TruthSubscription_decl :: class_decl where
  "TruthSubscription_decl = ClassDecl ''TruthSubscription''
     (Some [''id'', ''pattern'', ''createdAt''])
     [FieldDecl ''id'' TStr NoDefault,
      FieldDecl ''pattern'' (TDict TAny) NoDefault,
      FieldDecl ''filters'' (TDict TAny) (FieldDefault (EDict [])),
      FieldDecl ''webhookUrl'' (TOptional TStr) (Assign ENone),
      FieldDecl ''createdAt'' TDatetime NoDefault]"

definition TruthCoreRequest_decl :: class_decl where
  "TruthCoreRequest_decl = ClassDecl ''TruthCoreRequest''
     (Some [''id'', ''type'', ''payload'', ''metadata''])
     [FieldDecl ''id'' TStr NoDefault,
      FieldDecl ''type'' (TLiteral [''assert'', ''query'', ''subscribe'', ''unsubscribe'']) NoDefault,
      FieldDecl ''payload'' (TDict TAny) NoDefault,
      FieldDecl ''metadata'' (TDict TAny) NoDefault]"

definition TruthCoreResponse_decl :: class_decl where
  "TruthCoreResponse_decl = ClassDecl ''TruthCoreResponse''
     (Some [''requestId'', ''success'', ''timestamp''])
     [FieldDecl ''requestId'' TStr NoDefault,
      FieldDecl ''success'' TBool NoDefault,
      FieldDecl ''data'' (TOptional TAny) (Assign ENone),
      FieldDecl ''error'' (TOptional (TDict TAny)) (Assign ENone),
      FieldDecl ''timestamp'' TDatetime NoDefault]"

definition ConsistencyLevel_decl :: class_decl where
  "ConsistencyLevel_decl = ClassDecl ''ConsistencyLevel''
     None
     [FieldDecl ''value'' (TLiteral [''strict'', ''eventual'', ''best_effort'']) NoDefault]"

definition TruthValue_decl :: class_decl where
  "TruthValue_decl = ClassDecl ''TruthValue''
     None
     [FieldDecl ''value'' TAny NoDefault]"

definition HealthStatus_decl :: class_decl where
  "HealthStatus_decl = ClassDecl ''HealthStatus''
     None
     [FieldDecl ''value'' (TLiteral [''healthy'', ''degraded'', ''unhealthy'', ''unknown'']) NoDefault]"

definition HealthCheck_decl :: class_decl where
  "HealthCheck_decl = ClassDecl ''HealthCheck''
     (Some [''service'', ''status'', ''timestamp'', ''version'', ''uptime''])
     [FieldDecl ''service'' TStr NoDefault,
      FieldDecl ''status'' (TLiteral [''healthy'', ''degraded'', ''unhealthy'',
          ''unknown'']) NoDefault,
      FieldDecl ''timestamp'' TDatetime NoDefault,
      FieldDecl ''version'' TStr NoDefault,
      FieldDecl ''uptime'' TFloat NoDefault,
      FieldDecl ''checks'' (TList (TDict TAny)) (FieldDefault (EList []))]"

definition ServiceMetadata_decl :: class_decl where
  "ServiceMetadata_decl = ClassDecl ''ServiceMetadata''
     (Some [''name'', ''version'', ''contractVersion'', ''startTime''])
     [FieldDecl ''name'' TStr NoDefault,
      FieldDecl ''version'' TStr NoDefault,
      FieldDecl ''contractVersion'' TStr NoDefault,
      FieldDecl ''environment'' (TLiteral [''development'', ''staging'',
          ''production'']) (FieldDefault (EStr ''development'')),
      FieldDecl ''startTime'' TDatetime NoDefault,
      FieldDecl ''features'' (TList TStr) (FieldDefault (EList []))]"

definition PaginatedRequest_decl :: class_decl where
  "PaginatedRequest_decl = ClassDecl ''PaginatedRequest''
     None
     [FieldDecl ''limit'' TInt (FieldDefault (EInt 100)),
      FieldDecl ''offset'' TInt (FieldDefault (EInt 0)),
      FieldDecl ''cursor'' (TOptional TStr) (Assign ENone),
      FieldDecl ''sortBy'' (TOptional TStr) (Assign ENone),
      FieldDecl ''sortOrder'' (TLiteral [''asc'', ''desc'']) (FieldDefault (EStr ''asc''))]"

definition PaginatedResponse_decl :: class_decl where
  "PaginatedResponse_decl = ClassDecl ''PaginatedResponse''
     (Some [''items'', ''total'', ''limit'', ''offset'', ''hasMore''])
     [FieldDecl ''items'' (TList TAny) NoDefault,
      FieldDecl ''total'' TInt NoDefault,
      FieldDecl ''limit'' TInt NoDefault,
      FieldDecl ''offset'' TInt NoDefault,
      FieldDecl ''hasMore'' TBool NoDefault,
      FieldDecl ''nextCursor'' (TOptional TStr) (Assign ENone)]"

definition ApiRequest_decl :: class_decl where
  "ApiRequest_decl = ClassDecl ''ApiRequest''
     (Some [''id'', ''method'', ''path'', ''body'', ''metadata''])
     [FieldDecl ''id'' TStr NoDefault,
      FieldDecl ''method'' (TLiteral [''GET'', ''POST'', ''PUT'', ''PATCH'', ''DELETE'']) NoDefault,
      FieldDecl ''path'' TStr NoDefault,
      FieldDecl ''headers'' (TDict TStr) (FieldDefault (EDict [])),
      FieldDecl ''query'' (TDict TAny) (FieldDefault (EDict [])),
      FieldDecl ''body'' TAny NoDefault,
      FieldDecl ''metadata'' (TDict TAny) NoDefault]"

definition ApiResponse_decl :: class_decl where
  "ApiResponse_decl = ClassDecl ''ApiResponse''
     (Some [''requestId'', ''statusCode'', ''body'', ''metadata''])
     [FieldDecl ''requestId'' TStr NoDefault,
      FieldDecl ''statusCode'' TInt NoDefault,
      FieldDecl ''headers'' (TDict TStr) (FieldDefault (EDict [])),
      FieldDecl ''body'' TAny NoDefault,
      FieldDecl ''error'' (TOptional (TDict TAny)) (Assign ENone),
      FieldDecl ''metadata'' (TDict TAny) NoDefault]"

definition CapabilityRegistry_decl :: class_decl where
  "CapabilityRegistry_decl = ClassDecl ''CapabilityRegistry''
     (Some [''version'', ''generatedAt'', ''system'', ''truthcore'', ''runners'',
        ''connectors'', ''summary''])
     [FieldDecl ''version'' TStr NoDefault,
      FieldDecl ''generatedAt'' TDatetime NoDefault,
      FieldDecl ''system'' (TDict TAny) NoDefault,
      FieldDecl ''truthcore'' (TDict TAny) NoDefault,
      FieldDecl ''runners'' (TList (TDict TAny)) NoDefault,
      FieldDecl ''connectors'' (TList (TDict TAny)) NoDefault,
      FieldDecl ''summary'' (TDict TAny) NoDefault]"

definition RegisteredRunner_decl :: class_decl where
  "RegisteredRunner_decl = ClassDecl ''RegisteredRunner''
     (Some [''metadata'', ''category'', ''connectors'', ''health'', ''capabilities''])
     [FieldDecl ''metadata'' (TDict TAny) NoDefault,
      FieldDecl ''category'' (TLiteral [''ops'', ''finops'', ''support'', ''growth'', ''analytics'',
          ''security'', ''infrastructure'', ''custom'']) NoDefault,
      FieldDecl ''connectors'' (TList TStr) NoDefault,
      FieldDecl ''health'' (TDict TAny) NoDefault,
      FieldDecl ''capabilities'' (TList (TDict TAny)) NoDefault]"

definition ConnectorConfig_decl :: class_decl where
  "ConnectorConfig_decl = ClassDecl ''ConnectorConfig''
     (Some [''id'', ''name'', ''type'', ''version'', ''description'', ''configSchema''])
     [FieldDecl ''id'' TStr NoDefault,
      FieldDecl ''name'' TStr NoDefault,
      FieldDecl ''type'' (TLiteral [''database'', ''queue'', ''storage'', ''api'', ''webhook'',
          ''stream'', ''cache'', ''messaging'']) NoDefault,
      FieldDecl ''version'' TStr NoDefault,
      FieldDecl ''description'' TStr NoDefault,
      FieldDecl ''configSchema'' (TDict TAny) NoDefault,
      FieldDecl ''required'' TBool (FieldDefault (EName ''false'')),
      FieldDecl ''healthCheckable'' TBool (FieldDefault (EName ''true''))]"

definition ConnectorType_decl :: class_decl where
  "ConnectorType_decl = ClassDecl ''ConnectorType''
     None
     [FieldDecl ''value'' (TLiteral [''database'', ''queue'', ''storage'', ''api'', ''webhook'',
          ''stream'', ''cache'', ''messaging'']) NoDefault]"

definition ConnectorInstance_decl :: class_decl where
  "ConnectorInstance_decl = ClassDecl ''ConnectorInstance''
     (Some [''config'', ''status''])
     [FieldDecl ''config'' (TDict TAny) NoDefault,
      FieldDecl ''status'' (TLiteral [''connected'', ''disconnected'', ''error'',
          ''unknown'']) NoDefault,
      FieldDecl ''lastConnectedAt'' (TOptional TDatetime) (Assign ENone),
      FieldDecl ''lastErrorAt'' (TOptional TDatetime) (Assign ENone),
      FieldDecl ''errorMessage'' (TOptional TStr) (Assign ENone),
      FieldDecl ''metadata'' (TDict TAny) (FieldDefault (EDict []))]"

definition RunnerCategory_decl :: class_decl where
  "RunnerCategory_decl = ClassDecl ''RunnerCategory''
     None
     [FieldDecl ''value'' (TLiteral [''ops'', ''finops'', ''support'', ''growth'', ''analytics'',
          ''security'', ''infrastructure'', ''custom'']) NoDefault]"

definition RegistryQuery_decl :: class_decl where
  "RegistryQuery_decl = ClassDecl ''RegistryQuery''
     None
     [FieldDecl ''category'' (TOptional (TLiteral [''ops'', ''finops'', ''support'', ''growth'',
          ''analytics'', ''security'', ''infrastructure'', ''custom''])) (Assign ENone),
      FieldDecl ''connectorType'' (TOptional (TLiteral [''database'', ''queue'', ''storage'', ''api'',
          ''webhook'', ''stream'', ''cache'', ''messaging''])) (Assign ENone),
      FieldDecl ''healthStatus'' (TLiteral [''healthy'', ''degraded'', ''unhealthy'', ''offline'',
          ''any'']) (FieldDefault (EStr ''any'')),
      FieldDecl ''includeCapabilities'' TBool (FieldDefault (EName ''true'')),
      FieldDecl ''includeConnectors'' TBool (FieldDefault (EName ''true''))]"

definition RegistryDiff_decl :: class_decl where
  "RegistryDiff_decl = ClassDecl ''RegistryDiff''
     (Some [''added'', ''removed'', ''modified'', ''timestamp'', ''previousChecksum'',
        ''currentChecksum''])
     [FieldDecl ''added'' (TList (TDict TAny)) NoDefault,
      FieldDecl ''removed'' (TList (TDict TAny)) NoDefault,
      FieldDecl ''modified'' (TList (TDict TAny)) NoDefault,
      FieldDecl ''timestamp'' TDatetime NoDefault,
      FieldDecl ''previousChecksum'' TStr NoDefault,
      FieldDecl ''currentChecksum'' TStr NoDefault]"

definition MarketplaceIndex_decl :: class_decl where
  "MarketplaceIndex_decl = ClassDecl ''MarketplaceIndex''
     (Some [''version'', ''generatedAt'', ''schema'', ''system'', ''stats'', ''runners'',
        ''connectors'', ''filters''])
     [FieldDecl ''version'' TStr NoDefault,
      FieldDecl ''generatedAt'' TDatetime NoDefault,
      FieldDecl ''schema'' (TDict TAny) NoDefault,
      FieldDecl ''system'' (TDict TAny) NoDefault,
      FieldDecl ''stats'' (TDict TAny) NoDefault,
      FieldDecl ''runners'' (TList (TDict TAny)) NoDefault,
      FieldDecl ''connectors'' (TList (TDict TAny)) NoDefault,
      FieldDecl ''filters'' (TDict TAny) NoDefault]"

definition MarketplaceRunner_decl :: class_decl where
  "MarketplaceRunner_decl = ClassDecl ''MarketplaceRunner''
     (Some [''id'', ''metadata'', ''category'', ''description'', ''author'', ''license'',
        ''capabilities'', ''compatibility'', ''trustSignals'', ''publishedAt'', ''updatedAt''])
     [FieldDecl ''id'' TStr NoDefault,
      FieldDecl ''metadata'' (TDict TAny) NoDefault,
      FieldDecl ''category'' (TLiteral [''ops'', ''finops'', ''support'', ''growth'', ''analytics'',
          ''security'', ''infrastructure'', ''custom'']) NoDefault,
      FieldDecl ''description'' TStr NoDefault,
      FieldDecl ''longDescription'' (TOptional TStr) (Assign ENone),
      FieldDecl ''author'' (TDict TAny) NoDefault,
      FieldDecl ''repository'' (TOptional (TDict TAny)) (Assign ENone),
      FieldDecl ''documentation'' (TDict TAny) (FieldDefault (EDict [])),
      FieldDecl ''license'' TStr NoDefault,
      FieldDecl ''keywords'' (TList TStr) (FieldDefault (EList [])),
      FieldDecl ''capabilities'' (TList (TDict TAny)) NoDefault,
      FieldDecl ''compatibility'' (TDict TAny) NoDefault,
      FieldDecl ''trustSignals'' (TDict TAny) NoDefault,
      FieldDecl ''deprecation'' (TDict TAny) (FieldDefault (EDict [(''isDeprecated'',
          EName ''false'')])),
      FieldDecl ''status'' (TLiteral [''active'', ''deprecated'', ''pending_review'', ''rejected'',
          ''delisted'']) (FieldDefault (EStr ''active'')),
      FieldDecl ''publishedAt'' TDatetime NoDefault,
      FieldDecl ''updatedAt'' TDatetime NoDefault,
      FieldDecl ''versionHistory'' (TList (TDict TAny)) (FieldDefault (EList [])),
      FieldDecl ''installation'' (TDict TAny) (FieldDefault (EDict []))]"

definition MarketplaceConnector_decl :: class_decl where
  "MarketplaceConnector_decl = ClassDecl ''MarketplaceConnector''
     (Some [''id'', ''config'', ''description'', ''author'', ''license'', ''inputSchema'',
        ''outputSchema'', ''compatibility'', ''trustSignals'', ''publishedAt'', ''updatedAt''])
     [FieldDecl ''id'' TStr NoDefault,
      FieldDecl ''config'' (TDict TAny) NoDefault,
      FieldDecl ''description'' TStr NoDefault,
      FieldDecl ''longDescription'' (TOptional TStr) (Assign ENone),
      FieldDecl ''author'' (TDict TAny) NoDefault,
      FieldDecl ''repository'' (TOptional (TDict TAny)) (Assign ENone),
      FieldDecl ''documentation'' (TDict TAny) (FieldDefault (EDict [])),
      FieldDecl ''license'' TStr NoDefault,
      FieldDecl ''keywords'' (TList TStr) (FieldDefault (EList [])),
      FieldDecl ''inputSchema'' (TDict TAny) NoDefault,
      FieldDecl ''outputSchema'' (TDict TAny) NoDefault,
      FieldDecl ''compatibility'' (TDict TAny) NoDefault,
      FieldDecl ''trustSignals'' (TDict TAny) NoDefault,
      FieldDecl ''deprecation'' (TDict TAny) (FieldDefault (EDict [(''isDeprecated'',
          EName ''false'')])),
      FieldDecl ''status'' (TLiteral [''active'', ''deprecated'', ''pending_review'', ''rejected'',
          ''delisted'']) (FieldDefault (EStr ''active'')),
      FieldDecl ''publishedAt'' TDatetime NoDefault,
      FieldDecl ''updatedAt'' TDatetime NoDefault,
      FieldDecl ''versionHistory'' (TList (TDict TAny)) (FieldDefault (EList [])),
      FieldDecl ''installation'' (TDict TAny) (FieldDefault (EDict []))]"

definition MarketplaceQuery_decl :: class_decl where
  "MarketplaceQuery_decl = ClassDecl ''MarketplaceQuery''
     None
     [FieldDecl ''type'' (TLiteral [''runner'', ''connector'', ''all'']) (FieldDefault (EStr ''all'')),
      FieldDecl ''category'' (TOptional TStr) (Assign ENone),
      FieldDecl ''connectorType'' (TOptional TStr) (Assign ENone),
      FieldDecl ''status'' (TLiteral [''active'', ''deprecated'', ''pending_review'',
          ''all'']) (FieldDefault (EStr ''active'')),
      FieldDecl ''trustLevel'' (TLiteral [''verified'', ''community'',
          ''all'']) (FieldDefault (EStr ''all'')),
      FieldDecl ''search'' (TOptional TStr) (Assign ENone),
      FieldDecl ''compatibilityVersion'' (TOptional (TDict TAny)) (Assign ENone),
      FieldDecl ''author'' (TOptional TStr) (Assign ENone),
      FieldDecl ''keywords'' (TList TStr) (FieldDefault (EList [])),
      FieldDecl ''sortBy'' (TLiteral [''relevance'', ''name'', ''published'', ''updated'', ''rating'',
          ''downloads'']) (FieldDefault (EStr ''relevance'')),
      FieldDecl ''sortOrder'' (TLiteral [''asc'', ''desc'']) (FieldDefault (EStr ''desc'')),
      FieldDecl ''limit'' TFloat (FieldDefault (EInt 20)),
      FieldDecl ''offset'' TFloat (FieldDefault (EInt 0))]"

definition MarketplaceQueryResult_decl :: class_decl where
  "MarketplaceQueryResult_decl = ClassDecl ''MarketplaceQueryResult''
     (Some [''query'', ''total'', ''hasMore'', ''items'', ''facets''])
     [FieldDecl ''query'' (TDict TAny) NoDefault,
      FieldDecl ''total'' TFloat NoDefault,
      FieldDecl ''hasMore'' TBool NoDefault,
      FieldDecl ''items'' (TList (TUnion [TDict TAny, TDict TAny])) NoDefault,
      FieldDecl ''facets'' (TDict TAny) NoDefault]"

definition MarketplaceTrustSignals_decl :: class_decl where
  "MarketplaceTrustSignals_decl = ClassDecl ''MarketplaceTrustSignals''
     (Some [''overallTrust'', ''contractTestStatus'', ''verificationMethod'',
        ''securityScanStatus''])
     [FieldDecl ''overallTrust'' (TLiteral [''verified'', ''pending'', ''failed'',
          ''unverified'']) NoDefault,
      FieldDecl ''contractTestStatus'' (TLiteral [''passing'', ''failing'', ''not_tested'',
          ''stale'']) NoDefault,
      FieldDecl ''lastContractTestAt'' (TOptional TDatetime) (Assign ENone),
      FieldDecl ''lastVerifiedVersion'' (TOptional TStr) (Assign ENone),
      FieldDecl ''verificationMethod'' (TLiteral [''automated_ci'', ''manual_review'',
          ''community_verified'', ''official_publisher'']) NoDefault,
      FieldDecl ''securityScanStatus'' (TLiteral [''passed'', ''failed'', ''pending'',
          ''not_scanned'']) NoDefault,
      FieldDecl ''lastSecurityScanAt'' (TOptional TDatetime) (Assign ENone),
      FieldDecl ''securityScanDetails'' (TDict TAny) (FieldDefault (EDict [])),
      FieldDecl ''codeQualityScore'' (TOptional TFloat) (Assign ENone),
      FieldDecl ''maintainerReputation'' (TLiteral [''official'', ''verified'', ''community'',
          ''unknown'']) (FieldDefault (EStr ''unknown'')),
      FieldDecl ''downloadCount'' TFloat (FieldDefault (EInt 0)),
      FieldDecl ''rating'' (TDict TAny) (FieldDefault (EDict []))]"

definition TrustStatus_decl :: class_decl where
  "TrustStatus_decl = ClassDecl ''TrustStatus''
     None
     [FieldDecl ''value'' (TLiteral [''verified'', ''pending'', ''failed'', ''unverified'']) NoDefault]"

definition SecurityScanStatus_decl :: class_decl where
  "SecurityScanStatus_decl = ClassDecl ''SecurityScanStatus''
     None
     [FieldDecl ''value'' (TLiteral [''passed'', ''failed'', ''pending'', ''not_scanned'']) NoDefault]"

definition ContractTestStatus_decl :: class_decl where
  "ContractTestStatus_decl = ClassDecl ''ContractTestStatus''
     None
     [FieldDecl ''value'' (TLiteral [''passing'', ''failing'', ''not_tested'', ''stale'']) NoDefault]"

definition VerificationMethod_decl :: class_decl where
  "VerificationMethod_decl = ClassDecl ''VerificationMethod''
     None
     [FieldDecl ''value'' (TLiteral [''automated_ci'', ''manual_review'', ''community_verified'',
          ''official_publisher'']) NoDefault]"

definition models_py :: "class_decl list" where
  "models_py = [ErrorSeverity_decl, ErrorCategory_decl, RetryPolicy_decl, ErrorDetail_decl,
     ErrorEnvelope_decl, ContractVersion_decl, ContractRange_decl, JobId_decl, JobStatus_decl,
     JobPriority_decl, JobMetadata_decl, JobPayload_decl, JobRequest_decl, JobResult_decl,
     JobResponse_decl, RunnerCapability_decl, RunnerMetadata_decl,
     RunnerRegistrationRequest_decl, RunnerRegistrationResponse_decl, RunnerHeartbeat_decl,
     ModuleManifest_decl, RunnerExecutionRequest_decl, RunnerExecutionResponse_decl,
     TruthAssertion_decl, TruthQuery_decl, TruthQueryResult_decl, TruthSubscription_decl,
     TruthCoreRequest_decl, TruthCoreResponse_decl, ConsistencyLevel_decl, TruthValue_decl,
     HealthStatus_decl, HealthCheck_decl, ServiceMetadata_decl, PaginatedRequest_decl,
     PaginatedResponse_decl, ApiRequest_decl, ApiResponse_decl, CapabilityRegistry_decl,
     RegisteredRunner_decl, ConnectorConfig_decl, ConnectorType_decl, ConnectorInstance_decl,
     RunnerCategory_decl, RegistryQuery_decl, RegistryDiff_decl, MarketplaceIndex_decl,
     MarketplaceRunner_decl, MarketplaceConnector_decl, MarketplaceQuery_decl,
     MarketplaceQueryResult_decl, MarketplaceTrustSignals_decl, TrustStatus_decl,
     SecurityScanStatus_decl, ContractTestStatus_decl, VerificationMethod_decl]"

text \<open>
  The scope in which the first class statement runs, and the import of \<^verbatim>\<open>models\<close>: it
  yields the module's classes, or the exception that ended it.
\<close>

definition module_scope :: "string list" where
  "module_scope = models_globals @ builtin_names"

definition import_models :: "exn + (string \<times> py_class) list" where
  "import_models = exec_module module_scope models_py"

text \<open>
  The names of the classes of \<^verbatim>\<open>models.py\<close>, in the order of the module, and the scope
  of the module with, in addition, every one of these classes already bound: the most that
  a class statement of the module can see.
\<close>

definition model_names :: "string list" where
  "model_names =
    [''ErrorSeverity'', ''ErrorCategory'', ''RetryPolicy'', ''ErrorDetail'', ''ErrorEnvelope'',
     ''ContractVersion'', ''ContractRange'', ''JobId'', ''JobStatus'', ''JobPriority'',
     ''JobMetadata'', ''JobPayload'', ''JobRequest'', ''JobResult'', ''JobResponse'',
     ''RunnerCapability'', ''RunnerMetadata'', ''RunnerRegistrationRequest'',
     ''RunnerRegistrationResponse'', ''RunnerHeartbeat'', ''ModuleManifest'',
     ''RunnerExecutionRequest'', ''RunnerExecutionResponse'', ''TruthAssertion'',
     ''TruthQuery'', ''TruthQueryResult'', ''TruthSubscription'', ''TruthCoreRequest'',
     ''TruthCoreResponse'', ''ConsistencyLevel'', ''TruthValue'', ''HealthStatus'',
     ''HealthCheck'', ''ServiceMetadata'', ''PaginatedRequest'', ''PaginatedResponse'',
     ''ApiRequest'', ''ApiResponse'', ''CapabilityRegistry'', ''RegisteredRunner'',
     ''ConnectorConfig'', ''ConnectorType'', ''ConnectorInstance'', ''RunnerCategory'',
     ''RegistryQuery'', ''RegistryDiff'', ''MarketplaceIndex'', ''MarketplaceRunner'',
     ''MarketplaceConnector'', ''MarketplaceQuery'', ''MarketplaceQueryResult'',
     ''MarketplaceTrustSignals'', ''TrustStatus'', ''SecurityScanStatus'',
     ''ContractTestStatus'', ''VerificationMethod'']"

definition class_scope :: "string list" where
  "class_scope = module_scope @ model_names"

section \<open>The validation library\<close>

text \<open>
  Modelled from the spec: \<^verbatim>\<open>BaseModel.model_validate\<close> belongs to the pydantic library,
  which is not part of the sources. The definitions of this section follow the Validator
  contract of the specification (section 4.2): a required field absent from the data is a
  failure; a present field whose value cannot be coerced to the declared type is a failure;
  an enumerated field whose value is not a member of its literal set is a failure; an absent
  field with a declared default takes the default; keys the class does not declare are
  ignored; a failure lists every field-level failure with its path, message and offending
  value.

  What "can be coerced" means for the scalar types is the library's conversion table. It is
  the parameter \<open>conv\<close> below: \<open>conv s v\<close> is the converted value, or \<open>None\<close> when
  \<open>v\<close> is not acceptable for \<open>s\<close>.
\<close>

type_synonym conversion = "scalar \<Rightarrow> pyval \<Rightarrow> pyval option"

fun scalar_msg :: "scalar \<Rightarrow> string" where
  "scalar_msg SStr = ''Input should be a valid string''"
| "scalar_msg SInt = ''Input should be a valid integer''"
| "scalar_msg SFloat = ''Input should be a valid number''"
| "scalar_msg SBool = ''Input should be a valid boolean''"
| "scalar_msg SDatetime = ''Input should be a valid datetime''"

definition at_loc :: "loc_item \<Rightarrow> line_error \<Rightarrow> line_error" where
  "at_loc k e = LineError (k # loc e) (msg e) (input e)"

definition under :: "loc_item \<Rightarrow> line_error list + 'a \<Rightarrow> line_error list + 'a" where
  "under k r = (case r of Inl es \<Rightarrow> Inl (map (at_loc k) es) | Inr v \<Rightarrow> Inr v)"

text \<open>All parts are checked; the failures of all of them are reported together.\<close>

fun collect :: "(line_error list + 'a) list \<Rightarrow> line_error list + 'a list" where
  "collect [] = Inr []"
| "collect (r # rs) =
     (case r of
        Inl es \<Rightarrow> (case collect rs of Inl es' \<Rightarrow> Inl (es @ es') | Inr _ \<Rightarrow> Inl es)
      | Inr v \<Rightarrow> (case collect rs of Inl es' \<Rightarrow> Inl es' | Inr vs \<Rightarrow> Inr (v # vs)))"

fun first_ok :: "(line_error list + 'a) list \<Rightarrow> 'a option" where
  "first_ok [] = None"
| "first_ok (Inr v # rs) = Some v"
| "first_ok (Inl es # rs) = first_ok rs"

text \<open>
  Modelled from the spec: the check of one value against a declared type, part of pydantic's
  \<^verbatim>\<open>model_validate\<close>. A scalar goes through the conversion; an enumerated string must
  be a member of its literal set; \<^verbatim>\<open>None\<close> is accepted where the type is optional; the
  elements of a list and the values of a mapping are checked in turn, their failures cited
  under the position or the key; a union takes the first member, from left to right, that
  accepts the value.
\<close>

fun validate_type :: "conversion \<Rightarrow> ftype \<Rightarrow> pyval \<Rightarrow> line_error list + pyval" where
  "validate_type conv (TScalar s) v =
     (case conv s v of
        Some v' \<Rightarrow> Inr v'
      | None \<Rightarrow> Inl [LineError [] (scalar_msg s) v])"
| "validate_type conv TAny v = Inr v"
| "validate_type conv TNone v =
     (if v = VNone then Inr VNone else Inl [LineError [] ''Input should be None'' v])"
| "validate_type conv (TLiteral ls) v =
     (case v of
        VStr s \<Rightarrow>
          if s \<in> set ls then Inr (VStr s)
          else Inl [LineError [] ''Input should be one of the literal values'' v]
      | _ \<Rightarrow> Inl [LineError [] ''Input should be one of the literal values'' v])"
| "validate_type conv (TList t) v =
     (case v of
        VList xs \<Rightarrow>
          (case collect (map (\<lambda>(i, x). under (Idx i) (validate_type conv t x))
                             (zip [0..<length xs] xs)) of
             Inl es \<Rightarrow> Inl es
           | Inr ys \<Rightarrow> Inr (VList ys))
      | _ \<Rightarrow> Inl [LineError [] ''Input should be a valid list'' v])"
| "validate_type conv (TDict t) v =
     (case v of
        VDict kvs \<Rightarrow>
          (case collect (map (\<lambda>(k, x). under (Key k)
                                (case validate_type conv t x of
                                   Inl es \<Rightarrow> Inl es
                                 | Inr y \<Rightarrow> Inr (k, y))) kvs) of
             Inl es \<Rightarrow> Inl es
           | Inr kys \<Rightarrow> Inr (VDict kys))
      | _ \<Rightarrow> Inl [LineError [] ''Input should be a valid dictionary'' v])"
| "validate_type conv (TOptional t) v =
     (if v = VNone then Inr VNone else validate_type conv t v)"
| "validate_type conv (TUnion ts) v =
     (case first_ok (map (\<lambda>t. validate_type conv t v) ts) of
        Some v' \<Rightarrow> Inr v'
      | None \<Rightarrow> Inl [LineError [] ''Input does not match any member of the union'' v])"

text \<open>
  Modelled from the spec: one declared field against the data, part of pydantic's
  \<^verbatim>\<open>model_validate\<close>. Absent and required is a failure at the field's path, absent
  with a default takes the default, present is checked against the type.
\<close>

definition validate_field ::
  "conversion \<Rightarrow> (string \<times> pyval) list \<Rightarrow> field \<Rightarrow> line_error list + (string \<times> pyval)" where
  "validate_field conv data f =
     (case map_of data (fname f) of
        None \<Rightarrow>
          (case fdefault f of
             None \<Rightarrow> Inl [LineError [Key (fname f)] ''Field required'' (VDict data)]
           | Some d \<Rightarrow> Inr (fname f, d))
      | Some v \<Rightarrow>
          under (Key (fname f))
            (case validate_type conv (ftyp f) v of
               Inl es \<Rightarrow> Inl es
             | Inr v' \<Rightarrow> Inr (fname f, v')))"

text \<open>
  Modelled from the spec: pydantic's \<^verbatim>\<open>model_validate\<close>. Every declared field is
  checked, in declaration order; the instance holds the value of every declared field, and a
  failure raises one validation error with the failures of all fields.
\<close>

definition model_validate ::
  "conversion \<Rightarrow> py_class \<Rightarrow> (string \<times> pyval) list \<Rightarrow> exn + model_instance" where
  "model_validate conv model_class data =
     (case collect (map (validate_field conv data) (cfields model_class)) of
        Inl es \<Rightarrow> Inl (ValidationError es)
      | Inr kvs \<Rightarrow> Inr (Instance (cname model_class) kvs))"

text \<open>
  Modelled from the spec: the conversion table is pydantic's own. The classes of
  \<^verbatim>\<open>models.py\<close> ask for no strict mode (each \<^verbatim>\<open>model_config\<close> holds a
  \<^verbatim>\<open>json_schema_extra\<close> only), so the table is the library's default one, the coercion
  that section 4.2 of the specification speaks of. \<open>lax_conversion\<close> is the part of that
  table that the scenarios of this theory use: a value of the declared type is taken as it
  is, an integer is accepted for a float, and a string of decimal digits, with an optional
  minus sign, is accepted for an integer.
\<close>

definition is_digit :: "char \<Rightarrow> bool" where
  "is_digit c = (c \<in> set ''0123456789'')"

definition digits_value :: "string \<Rightarrow> nat" where
  "digits_value s = foldl (\<lambda>a c. 10 * a + (of_char c - 48)) 0 s"

fun parse_int :: "string \<Rightarrow> int option" where
  "parse_int [] = None"
| "parse_int (c # cs) =
     (if c = CHR ''-'' then
        (if cs \<noteq> [] \<and> list_all is_digit cs then Some (- int (digits_value cs)) else None)
      else if list_all is_digit (c # cs) then Some (int (digits_value (c # cs)))
      else None)"

fun lax_conversion :: conversion where
  "lax_conversion SStr (VStr s) = Some (VStr s)"
| "lax_conversion SInt (VInt n) = Some (VInt n)"
| "lax_conversion SInt (VStr s) = map_option VInt (parse_int s)"
| "lax_conversion SFloat (VFloat q) = Some (VFloat q)"
| "lax_conversion SFloat (VInt n) = Some (VFloat (of_int n))"
| "lax_conversion SBool (VBool b) = Some (VBool b)"
| "lax_conversion SDatetime (VDatetime y mo d h mi sec) = Some (VDatetime y mo d h mi sec)"
| "lax_conversion _ _ = None"

section \<open>validation.py\<close>

definition validate ::
  "conversion \<Rightarrow> py_class \<Rightarrow> (string \<times> pyval) list \<Rightarrow> exn + model_instance" where
  "validate conv model_class data = model_validate conv model_class data"

text \<open>
  The values of the dictionary that \<^verbatim>\<open>safe_validate\<close> returns: the flag, the instance or
  the caught exception.
\<close>

datatype dval = DBool bool | DInstance model_instance | DError exn

text \<open>
  \<^verbatim>\<open>try: ... except ValidationError as e: ...\<close> catches the validation error only; any
  other exception leaves the function.
\<close>

definition safe_validate ::
  "conversion \<Rightarrow> py_class \<Rightarrow> (string \<times> pyval) list \<Rightarrow> exn + (string \<times> dval) list" where
  "safe_validate conv model_class data =
     (case validate conv model_class data of
        Inr validated \<Rightarrow> Inr [(''success'', DBool True), (''data'', DInstance validated)]
      | Inl (ValidationError es) \<Rightarrow>
          Inr [(''success'', DBool False), (''error'', DError (ValidationError es))]
      | Inl e \<Rightarrow> Inl e)"

section \<open>schemas.py\<close>

text \<open>
  The dictionary display of \<^verbatim>\<open>SCHEMA_REGISTRY\<close>: each key with the attribute of the
  \<^verbatim>\<open>models\<close> module that the source writes beside it.
\<close>

definition SCHEMA_REGISTRY :: "(string \<times> string) list" where
  "SCHEMA_REGISTRY =
     [(''RetryPolicy'', ''RetryPolicy''),
      (''ErrorDetail'', ''ErrorDetail''),
      (''ErrorEnvelope'', ''ErrorEnvelope''),
      (''ContractVersion'', ''ContractVersion''),
      (''ContractRange'', ''ContractRange''),
      (''JobMetadata'', ''JobMetadata''),
      (''JobPayload'', ''JobPayload''),
      (''JobRequest'', ''JobRequest''),
      (''JobResult'', ''JobResult''),
      (''JobResponse'', ''JobResponse''),
      (''RunnerCapability'', ''RunnerCapability''),
      (''RunnerMetadata'', ''RunnerMetadata''),
      (''RunnerRegistrationRequest'', ''RunnerRegistrationRequest''),
      (''RunnerRegistrationResponse'', ''RunnerRegistrationResponse''),
      (''RunnerHeartbeat'', ''RunnerHeartbeat''),
      (''ModuleManifest'', ''ModuleManifest''),
      (''RunnerExecutionRequest'', ''RunnerExecutionRequest''),
      (''RunnerExecutionResponse'', ''RunnerExecutionResponse''),
      (''TruthAssertion'', ''TruthAssertion''),
      (''TruthQuery'', ''TruthQuery''),
      (''TruthQueryResult'', ''TruthQueryResult''),
      (''TruthSubscription'', ''TruthSubscription''),
      (''TruthCoreRequest'', ''TruthCoreRequest''),
      (''TruthCoreResponse'', ''TruthCoreResponse''),
      (''HealthCheck'', ''HealthCheck''),
      (''ServiceMetadata'', ''ServiceMetadata''),
      (''PaginatedRequest'', ''PaginatedRequest''),
      (''PaginatedResponse'', ''PaginatedResponse''),
      (''ApiRequest'', ''ApiRequest''),
      (''ApiResponse'', ''ApiResponse''),
      (''CapabilityRegistry'', ''CapabilityRegistry''),
      (''RegisteredRunner'', ''RegisteredRunner''),
      (''ConnectorConfig'', ''ConnectorConfig''),
      (''ConnectorInstance'', ''ConnectorInstance''),
      (''RegistryQuery'', ''RegistryQuery''),
      (''RegistryDiff'', ''RegistryDiff''),
      (''MarketplaceIndex'', ''MarketplaceIndex''),
      (''MarketplaceRunner'', ''MarketplaceRunner''),
      (''MarketplaceConnector'', ''MarketplaceConnector''),
      (''MarketplaceQuery'', ''MarketplaceQuery''),
      (''MarketplaceQueryResult'', ''MarketplaceQueryResult''),
      (''MarketplaceTrustSignals'', ''MarketplaceTrustSignals'')]"
text \<open>
  Building the registry reads each attribute from the imported module, in order; a missing
  attribute raises \<^verbatim>\<open>AttributeError\<close>.
\<close>

fun registry_of ::
  "(string \<times> py_class) list \<Rightarrow> (string \<times> string) list \<Rightarrow> exn + (string \<times> py_class) list" where
  "registry_of ns [] = Inr []"
| "registry_of ns ((k, a) # kas) =
     (case map_of ns a of
        None \<Rightarrow> Inl (AttributeError a)
      | Some c \<Rightarrow>
          (case registry_of ns kas of
             Inl x \<Rightarrow> Inl x
           | Inr r \<Rightarrow> Inr ((k, c) # r)))"

text \<open>\<^verbatim>\<open>from . import models\<close>, then the registry.\<close>

definition import_schemas :: "exn + (string \<times> py_class) list" where
  "import_schemas =
     (case import_models of
        Inl x \<Rightarrow> Inl x
      | Inr ns \<Rightarrow> registry_of ns SCHEMA_REGISTRY)"

text \<open>
  The two functions read the module's registry; it is their first argument here.
  \<^verbatim>\<open>SCHEMA_REGISTRY[name]\<close> raises \<^verbatim>\<open>KeyError\<close> on a missing key by itself.
\<close>

definition get_schema :: "(string \<times> 'c) list \<Rightarrow> string \<Rightarrow> exn + 'c" where
  "get_schema registry name =
     (if name \<notin> set (map fst registry) then Inl (KeyError (''Unknown schema: '' @ name))
      else case map_of registry name of
             None \<Rightarrow> Inl (KeyError name)
           | Some c \<Rightarrow> Inr c)"

definition list_schemas :: "(string \<times> 'c) list \<Rightarrow> string list" where
  "list_schemas registry = map fst registry"

section \<open>client.py\<close>

record ClientConfig =
  base_url :: string
  api_key :: "string option"
  timeout :: rat

text \<open>The instance that \<^verbatim>\<open>ContractVersion(major=1, minor=0, patch=0)\<close> builds.\<close>

record ContractVersion =
  major :: int
  minor :: int
  patch :: int
  preRelease :: "string option"

text \<open>
  The HTTP library is outside the sources. A request as the library sends it, the response
  it hands back (the status code, and what \<^verbatim>\<open>.json()\<close> gives for the body: the decoded
  value or a decoding error), and the library's client object: its settings and, to make
  the exchanges visible, the requests it has sent.
\<close>

record http_request =
  req_method :: string
  req_base_url :: string
  req_path :: string
  req_headers :: "(string \<times> string) list"
  req_timeout :: rat
  req_options :: "(string \<times> pyval) list"


record httpx_client =
  client_base_url :: string
  client_timeout :: rat
  client_headers :: "(string \<times> string) list"
  sent :: "http_request list"

record ControlPlaneClient =
  config :: ClientConfig
  contract_version :: ContractVersion
  httpx :: httpx_client

text \<open>\<^verbatim>\<open>str\<close> of an integer, as the f-string formats it.\<close>

fun str_nat :: "nat \<Rightarrow> string" where
  "str_nat n =
     (if n < 10 then [''0123456789'' ! n]
      else str_nat (n div 10) @ [''0123456789'' ! (n mod 10)])"

definition str_int :: "int \<Rightarrow> string" where
  "str_int i = (if i < 0 then CHR ''-'' # str_nat (nat (- i)) else str_nat (nat i))"

definition serialize_version :: "ContractVersion \<Rightarrow> string" where
  "serialize_version version =
     str_int (major version) @ ''.'' @ str_int (minor version) @ ''.'' @ str_int (patch version)"

text \<open>\<^verbatim>\<open>d[k] = v\<close>: the value of an existing key is replaced, a new key goes last.\<close>

fun setitem :: "('k \<times> 'v) list \<Rightarrow> 'k \<Rightarrow> 'v \<Rightarrow> ('k \<times> 'v) list" where
  "setitem [] k v = [(k, v)]"
| "setitem ((k', v') # d) k v = (if k' = k then (k, v) # d else (k', v') # setitem d k v)"

text \<open>The truth value of an \<^verbatim>\<open>Optional[str]\<close>: \<^verbatim>\<open>None\<close> and the empty string are false.\<close>

fun truthy :: "string option \<Rightarrow> bool" where
  "truthy None = False"
| "truthy (Some s) = (s \<noteq> [])"

definition default_headers :: "ClientConfig \<Rightarrow> ContractVersion \<Rightarrow> (string \<times> string) list" where
  "default_headers cfg version =
     (let headers = [(''Content-Type'', ''application/json''),
                     (''X-Contract-Version'', serialize_version version)]
      in if truthy (api_key cfg)
         then setitem headers ''Authorization'' (''Bearer '' @ the (api_key cfg))
         else headers)"

definition init :: "ClientConfig \<Rightarrow> ControlPlaneClient" where
  "init cfg =
     (let version = \<lparr>major = 1, minor = 0, patch = 0, preRelease = None\<rparr>
      in \<lparr>config = cfg,
          contract_version = version,
          httpx = \<lparr>client_base_url = base_url cfg,
                   client_timeout = timeout cfg,
                   client_headers = default_headers cfg version,
                   sent = []\<rparr>\<rparr>)"

definition get_contract_version :: "ControlPlaneClient \<Rightarrow> ContractVersion" where
  "get_contract_version self = contract_version self"

definition client_validate ::
  "ControlPlaneClient \<Rightarrow> conversion \<Rightarrow> py_class \<Rightarrow> (string \<times> pyval) list
     \<Rightarrow> exn + model_instance" where
  "client_validate self conv model_class data = model_validate conv model_class data"

definition client_safe_validate ::
  "ControlPlaneClient \<Rightarrow> conversion \<Rightarrow> py_class \<Rightarrow> (string \<times> pyval) list
     \<Rightarrow> exn + (string \<times> dval) list" where
  "client_safe_validate self conv model_class data =
     (case client_validate self conv model_class data of
        Inr validated \<Rightarrow> Inr [(''success'', DBool True), (''data'', DInstance validated)]
      | Inl (ValidationError es) \<Rightarrow>
          Inr [(''success'', DBool False), (''error'', DError (ValidationError es))]
      | Inl e \<Rightarrow> Inl e)"





declare str_nat.simps [simp del]

section \<open>The scenarios of the specification\<close>

text \<open>
  The mapping of the concrete scenario,
  \<^verbatim>\<open>{"id":"j1","type":"ingest","payload":{"type":"x","data":{}},
   "metadata":{"source":"api","createdAt":"2024-01-01T00:00:00Z"}}\<close>.
\<close>

definition scenario_data :: "(string \<times> pyval) list" where
  "scenario_data =
     [(''id'', VStr ''j1''),
      (''type'', VStr ''ingest''),
      (''payload'', VDict [(''type'', VStr ''x''), (''data'', VDict [])]),
      (''metadata'', VDict [(''source'', VStr ''api''),
                           (''createdAt'', VStr ''2024-01-01T00:00:00Z'')])]"

text \<open>
  \<^verbatim>\<open>get_schema(name)\<close> followed by \<^verbatim>\<open>validate\<close>, as a caller of the package runs
  them: the package is imported, which builds the registry, the class is looked up and the
  data validated against it.
\<close>

definition get_schema_then_validate ::
  "conversion \<Rightarrow> string \<Rightarrow> (string \<times> pyval) list \<Rightarrow> exn + model_instance" where
  "get_schema_then_validate conv name data =
     (case import_schemas of
        Inl x \<Rightarrow> Inl x
      | Inr registry \<Rightarrow>
          (case get_schema registry name of
             Inl x \<Rightarrow> Inl x
           | Inr model_class \<Rightarrow> validate conv model_class data))"

text \<open>The paths that a validation error cites.\<close>

fun error_paths :: "exn \<Rightarrow> loc_item list list" where
  "error_paths (ValidationError es) = map loc es"
| "error_paths _ = []"

text \<open>The data restricted to the keys that a class declares.\<close>

definition restrict_to :: "py_class \<Rightarrow> (string \<times> pyval) list \<Rightarrow> (string \<times> pyval) list" where
  "restrict_to S D = filter (\<lambda>kv. fst kv \<in> set (declared_fields S)) D"

text \<open>
  A class statement of \<^verbatim>\<open>models.py\<close> run on its own at the top of the module, and
  \<^verbatim>\<open>validate\<close> against the class it creates.
\<close>

definition validate_declared ::
  "conversion \<Rightarrow> class_decl \<Rightarrow> (string \<times> pyval) list \<Rightarrow> exn + model_instance" where
  "validate_declared conv d data =
     (case exec_class module_scope d of
        Inl x \<Rightarrow> Inl x
      | Inr model_class \<Rightarrow> validate conv model_class data)"

text \<open>Validation fails and the error cites the path \<open>p\<close>.\<close>

definition fails_citing ::
  "conversion \<Rightarrow> py_class \<Rightarrow> (string \<times> pyval) list \<Rightarrow> loc_item list \<Rightarrow> bool" where
  "fails_citing conv S D p =
     (case validate conv S D of
        Inl x \<Rightarrow> p \<in> set (error_paths x)
      | Inr _ \<Rightarrow> False)"

text \<open>
  What a caller observes of a validation: the instance, or the paths that the error cites.
  (The entry of a missing field also carries the whole input mapping as its offending value.)
\<close>

fun outcome :: "exn + model_instance \<Rightarrow> loc_item list list + model_instance" where
  "outcome (Inl x) = Inl (error_paths x)"
| "outcome (Inr i) = Inr i"

fun paths_of :: "line_error list + 'a \<Rightarrow> loc_item list list + 'a" where
  "paths_of (Inl es) = Inl (map loc es)"
| "paths_of (Inr v) = Inr v"

text \<open>The mappings, configurations and remote sides used as examples.\<close>

definition without_payload :: "(string \<times> pyval) list" where
  "without_payload = filter (\<lambda>kv. fst kv \<noteq> ''payload'') scenario_data"

definition with_extra_keys :: "(string \<times> pyval) list" where
  "with_extra_keys = (''traceId'', VStr ''t-1'') # scenario_data @ [(''debug'', VBool True)]"




definition cfg_token :: ClientConfig where
  "cfg_token =
     \<lparr>base_url = ''https://controlplane.example'', api_key = Some ''s3cret'', timeout = 30\<rparr>"

definition cfg_empty_token :: ClientConfig where
  "cfg_empty_token =
     \<lparr>base_url = ''https://controlplane.example'', api_key = Some [], timeout = 30\<rparr>"

definition cfg_no_token :: ClientConfig where
  "cfg_no_token =
     \<lparr>base_url = ''https://controlplane.example'', api_key = None, timeout = 30\<rparr>"





section \<open>Facts about the validation library\<close>

lemma collect_Inl_mem:
  "r \<in> set rs \<Longrightarrow> r = Inl es \<Longrightarrow> e \<in> set es \<Longrightarrow> \<exists>es'. collect rs = Inl es' \<and> e \<in> set es'"
  by (induction rs) (auto split: sum.splits)

lemma field_error_cited:
  assumes "fl \<in> set (cfields S)" and "validate_field conv D fl = Inl es" and "e \<in> set es"
  shows "\<exists>es'. validate conv S D = Inl (ValidationError es') \<and> e \<in> set es'"
proof -
  from assms(1,2) have "Inl es \<in> set (map (validate_field conv D) (cfields S))"
    by force
  from collect_Inl_mem[OF this refl assms(3)]
  show ?thesis by (auto simp: validate_def model_validate_def)
qed

lemma field_error_fails_citing:
  assumes "fl \<in> set (cfields S)" and "validate_field conv D fl = Inl es" and "e \<in> set es"
  shows "fails_citing conv S D (loc e)"
proof -
  from field_error_cited[OF assms] obtain es' where
    "validate conv S D = Inl (ValidationError es')" "e \<in> set es'" by blast
  then show ?thesis by (auto simp: fails_citing_def)
qed

lemma missing_field_cited:
  assumes "f \<in> set (required_fields S)" and "map_of D f = None"
  shows "fails_citing conv S D [Key f]"
proof -
  from assms(1) obtain fl where fl: "fl \<in> set (cfields S)" "fdefault fl = None" "fname fl = f"
    by (auto simp: required_fields_def)
  with assms(2) have
    "validate_field conv D fl = Inl [LineError [Key f] ''Field required'' (VDict D)]"
    by (simp add: validate_field_def)
  from field_error_fails_citing[OF fl(1) this, of "LineError [Key f] ''Field required'' (VDict D)"]
  show ?thesis by simp
qed

lemma paths_of_collect_Cons:
  "paths_of r' = paths_of r \<Longrightarrow> paths_of (collect rs') = paths_of (collect rs) \<Longrightarrow>
   paths_of (collect (r' # rs')) = paths_of (collect (r # rs))"
  by (cases r; cases r'; cases "collect rs"; cases "collect rs'") auto

lemma collect_same_paths:
  "list_all2 (\<lambda>r' r. paths_of r' = paths_of r) rs' rs \<Longrightarrow>
   paths_of (collect rs') = paths_of (collect rs)"
proof (induction rs' rs rule: list_all2_induct)
  case Nil
  show ?case by simp
next
  case (Cons r' rs' r rs)
  then show ?case by (intro paths_of_collect_Cons)
qed

lemma validate_field_agree:
  "map_of D' (fname f) = map_of D (fname f) \<Longrightarrow>
   paths_of (validate_field conv D' f) = paths_of (validate_field conv D f)"
  by (simp add: validate_field_def split: option.splits)

lemma validate_agree:
  assumes "\<forall>k \<in> set (declared_fields S). map_of D' k = map_of D k"
  shows "outcome (validate conv S D') = outcome (validate conv S D)"
proof -
  have "list_all2 (\<lambda>r' r. paths_of r' = paths_of r)
          (map (validate_field conv D') (cfields S)) (map (validate_field conv D) (cfields S))"
    using assms
    by (auto simp: declared_fields_def list_all2_map1 list_all2_map2 list_all2_same
             intro!: validate_field_agree)
  from collect_same_paths[OF this] show ?thesis
    by (cases "collect (map (validate_field conv D') (cfields S))";
        cases "collect (map (validate_field conv D) (cfields S))")
       (auto simp: validate_def model_validate_def)
qed

lemma map_of_filter_key: "P k \<Longrightarrow> map_of (filter (\<lambda>kv. P (fst kv)) D) k = map_of D k"
  by (induction D) auto

section \<open>Facts about the class statements\<close>

lemmas decl_defs =
  ErrorSeverity_decl_def ErrorCategory_decl_def RetryPolicy_decl_def ErrorDetail_decl_def
  ErrorEnvelope_decl_def ContractVersion_decl_def ContractRange_decl_def JobId_decl_def
  JobStatus_decl_def JobPriority_decl_def JobMetadata_decl_def JobPayload_decl_def
  JobRequest_decl_def JobResult_decl_def JobResponse_decl_def RunnerCapability_decl_def
  RunnerMetadata_decl_def RunnerRegistrationRequest_decl_def
  RunnerRegistrationResponse_decl_def RunnerHeartbeat_decl_def ModuleManifest_decl_def
  RunnerExecutionRequest_decl_def RunnerExecutionResponse_decl_def TruthAssertion_decl_def
  TruthQuery_decl_def TruthQueryResult_decl_def TruthSubscription_decl_def
  TruthCoreRequest_decl_def TruthCoreResponse_decl_def ConsistencyLevel_decl_def
  TruthValue_decl_def HealthStatus_decl_def HealthCheck_decl_def ServiceMetadata_decl_def
  PaginatedRequest_decl_def PaginatedResponse_decl_def ApiRequest_decl_def
  ApiResponse_decl_def CapabilityRegistry_decl_def RegisteredRunner_decl_def
  ConnectorConfig_decl_def ConnectorType_decl_def ConnectorInstance_decl_def
  RunnerCategory_decl_def RegistryQuery_decl_def RegistryDiff_decl_def
  MarketplaceIndex_decl_def MarketplaceRunner_decl_def MarketplaceConnector_decl_def
  MarketplaceQuery_decl_def MarketplaceQueryResult_decl_def
  MarketplaceTrustSignals_decl_def TrustStatus_decl_def SecurityScanStatus_decl_def
  ContractTestStatus_decl_def VerificationMethod_decl_def

lemma model_names_are_declared: "map dname models_py = model_names"
  by (simp add: models_py_def model_names_def decl_defs)

text \<open>
  The names that the class statements look up: \<^verbatim>\<open>BaseModel\<close>, \<^verbatim>\<open>ConfigDict\<close> and
  \<^verbatim>\<open>Field\<close> are bound by the imports; \<^verbatim>\<open>false\<close> and \<^verbatim>\<open>true\<close> are bound
  neither by the module nor by the builtins.
\<close>

lemma class_scope_names:
  "''BaseModel'' \<in> set class_scope"
  "''ConfigDict'' \<in> set class_scope"
  "''Field'' \<in> set class_scope"
  "''false'' \<notin> set class_scope"
  "''true'' \<notin> set class_scope"
  by code_simp+

text \<open>
  In any scope that binds the three imported names and neither \<^verbatim>\<open>false\<close> nor
  \<^verbatim>\<open>true\<close>, six class statements of the module raise and the other fifty create
  their class.
\<close>

lemma raising_classes:
  assumes "''BaseModel'' \<in> set sc" "''ConfigDict'' \<in> set sc" "''Field'' \<in> set sc"
    "''false'' \<notin> set sc" "''true'' \<notin> set sc"
  shows "map dname (filter (\<lambda>d. isl (exec_class sc d)) models_py)
       = [''ErrorEnvelope'', ''TruthQueryResult'', ''ConnectorConfig'', ''RegistryQuery'',
          ''MarketplaceRunner'', ''MarketplaceConnector'']"
  using assms by (simp add: models_py_def exec_class_def decl_defs)

lemma import_models_raises: "import_models = Inl (NameError ''false'')"
  by code_simp

lemma import_schemas_raises: "import_schemas = Inl (NameError ''false'')"
  by (simp add: import_schemas_def import_models_raises)

lemma JobRequest_class:
  "exec_class module_scope JobRequest_decl =
     Inr (PyClass ''JobRequest'' (Some [''id'', ''type'', ''payload'', ''metadata''])
       [FieldInfo ''id'' TStr None,
        FieldInfo ''type'' TStr None,
        FieldInfo ''priority'' TInt (Some (VInt 50)),
        FieldInfo ''payload'' (TDict TAny) None,
        FieldInfo ''metadata'' (TDict TAny) None,
        FieldInfo ''retryPolicy'' (TDict TAny)
          (Some (VDict [(''maxRetries'', VInt 3), (''backoffMs'', VInt 1000),
                        (''maxBackoffMs'', VInt 30000), (''backoffMultiplier'', VInt 2),
                        (''retryableCategories'', VList []),
                        (''nonRetryableCategories'', VList [])])),
        FieldInfo ''timeoutMs'' TFloat (Some (VInt 30000))])"
  by code_simp


text \<open>
  Taken alone, the class statement of \<^verbatim>\<open>JobRequest\<close> creates its class, and the mapping
  of the scenario validates against it with the declared defaults: \<^verbatim>\<open>priority\<close> is 50
  and \<^verbatim>\<open>timeoutMs\<close> is 30000.
\<close>

lemma JobRequest_scenario_defaults:
  "validate_declared lax_conversion JobRequest_decl scenario_data =
     Inr (Instance ''JobRequest''
       [(''id'', VStr ''j1''),
        (''type'', VStr ''ingest''),
        (''priority'', VInt 50),
        (''payload'', VDict [(''type'', VStr ''x''), (''data'', VDict [])]),
        (''metadata'', VDict [(''source'', VStr ''api''),
                             (''createdAt'', VStr ''2024-01-01T00:00:00Z'')]),
        (''retryPolicy'',
           VDict [(''maxRetries'', VInt 3), (''backoffMs'', VInt 1000),
                  (''maxBackoffMs'', VInt 30000), (''backoffMultiplier'', VInt 2),
                  (''retryableCategories'', VList []),
                  (''nonRetryableCategories'', VList [])]),
        (''timeoutMs'', VInt 30000)])"
  by code_simp

text \<open>
  The \<^verbatim>\<open>required\<close> list that a class carries in its \<^verbatim>\<open>json_schema_extra\<close> names
  exactly its fields without a default, for every class of the module that has such a list.
\<close>

lemma schema_required_lists_agree:
  "list_all (\<lambda>d. case dconfig d of
                    None \<Rightarrow> True
                  | Some req \<Rightarrow>
                      req = map (\<lambda>fd. case fd of FieldDecl n t dflt \<Rightarrow> n)
                              (filter (\<lambda>fd. case fd of FieldDecl n t dflt \<Rightarrow> dflt = NoDefault)
                                 (dfields d)))
     models_py"
  by code_simp

section \<open>The claims\<close>

text \<open>
  C1. For every model class and every input mapping, \<^verbatim>\<open>safe_validate\<close> raises nothing
  and returns a tagged dictionary: \<^verbatim>\<open>{success: True, data: instance}\<close> when
  \<^verbatim>\<open>validate\<close> returns the instance, and \<^verbatim>\<open>{success: False, error: e}\<close> when
  \<^verbatim>\<open>validate\<close> raises the validation error \<open>e\<close>. The flag is false exactly when
  \<^verbatim>\<open>validate\<close> fails on the same input.
\<close>

theorem safe_validate_tagged_result:
  "(\<exists>v. validate conv M d = Inr v \<and>
        safe_validate conv M d = Inr [(''success'', DBool True), (''data'', DInstance v)])
   \<or> (\<exists>es. validate conv M d = Inl (ValidationError es) \<and>
        safe_validate conv M d =
          Inr [(''success'', DBool False), (''error'', DError (ValidationError es))])"
  by (auto simp: safe_validate_def validate_def model_validate_def split: sum.splits)

text \<open>
  C2. The scenario \<^verbatim>\<open>get_schema("JobRequest")\<close> followed by \<^verbatim>\<open>validate\<close> on the
  mapping of the specification is claimed to succeed with \<^verbatim>\<open>priority == 50\<close> and
  \<^verbatim>\<open>timeoutMs == 30000\<close>. On the package as it is written the scenario raises
  \<^verbatim>\<open>NameError\<close>: the registry is built from the import of \<^verbatim>\<open>models\<close>, which ends at
  the class \<^verbatim>\<open>ErrorEnvelope\<close>, before \<^verbatim>\<open>JobRequest\<close> is created.
\<close>

theorem jobrequest_scenario_raises_NameError:
  "get_schema_then_validate conv ''JobRequest'' scenario_data = Inl (NameError ''false'')"
  by (simp add: get_schema_then_validate_def import_schemas_raises)

text \<open>
  C3. Every default of the model definitions is claimed to denote a well-defined value, so
  that every class of the registry is usable. The identifiers \<^verbatim>\<open>false\<close> and
  \<^verbatim>\<open>true\<close> that six classes use in their defaults are bound nowhere: the class
  statements of \<^verbatim>\<open>ErrorEnvelope\<close>, \<^verbatim>\<open>TruthQueryResult\<close>, \<^verbatim>\<open>ConnectorConfig\<close>
  and \<^verbatim>\<open>RegistryQuery\<close> raise \<^verbatim>\<open>NameError\<close> even with every class of the module in
  scope, these four and the two marketplace classes are the statements of the module that
  raise, all six are named in the registry, and the import of \<^verbatim>\<open>models\<close>, hence of the
  registry, raises \<^verbatim>\<open>NameError\<close> at the first of them.
\<close>

theorem boolean_defaults_raise_NameError:
  "''false'' \<notin> set class_scope \<and> ''true'' \<notin> set class_scope
   \<and> exec_class class_scope ErrorEnvelope_decl = Inl (NameError ''false'')
   \<and> exec_class class_scope TruthQueryResult_decl = Inl (NameError ''false'')
   \<and> exec_class class_scope ConnectorConfig_decl = Inl (NameError ''false'')
   \<and> exec_class class_scope RegistryQuery_decl = Inl (NameError ''true'')
   \<and> map dname (filter (\<lambda>d. isl (exec_class class_scope d)) models_py)
       = [''ErrorEnvelope'', ''TruthQueryResult'', ''ConnectorConfig'', ''RegistryQuery'',
          ''MarketplaceRunner'', ''MarketplaceConnector'']
   \<and> list_all (\<lambda>n. n \<in> set (map snd SCHEMA_REGISTRY))
        [''ErrorEnvelope'', ''TruthQueryResult'', ''ConnectorConfig'', ''RegistryQuery'',
         ''MarketplaceRunner'', ''MarketplaceConnector'']
   \<and> import_models = Inl (NameError ''false'')
   \<and> import_schemas = Inl (NameError ''false'')"
proof -
  have a: "exec_class class_scope ErrorEnvelope_decl = Inl (NameError ''false'')" by code_simp
  have b: "exec_class class_scope TruthQueryResult_decl = Inl (NameError ''false'')" by code_simp
  have c: "exec_class class_scope ConnectorConfig_decl = Inl (NameError ''false'')" by code_simp
  have d: "exec_class class_scope RegistryQuery_decl = Inl (NameError ''true'')" by code_simp
  have e: "map dname (filter (\<lambda>d. isl (exec_class class_scope d)) models_py)
       = [''ErrorEnvelope'', ''TruthQueryResult'', ''ConnectorConfig'', ''RegistryQuery'',
          ''MarketplaceRunner'', ''MarketplaceConnector'']"
    by (rule raising_classes) (rule class_scope_names)+
  have f: "list_all (\<lambda>n. n \<in> set (map snd SCHEMA_REGISTRY))
        [''ErrorEnvelope'', ''TruthQueryResult'', ''ConnectorConfig'', ''RegistryQuery'',
         ''MarketplaceRunner'', ''MarketplaceConnector'']" by code_simp
  from class_scope_names(4,5) a b c d e f import_models_raises import_schemas_raises
  show ?thesis by blast
qed

text \<open>
  C4. For every model class \<open>S\<close> and every mapping \<open>D\<close> that lacks a field which \<open>S\<close>
  requires, \<^verbatim>\<open>validate(S, D)\<close> fails and the validation error cites that field's path.
\<close>

theorem validate_missing_required:
  assumes "f \<in> set (required_fields S)" and "map_of D f = None"
  shows "fails_citing conv S D [Key f]"
  using assms by (rule missing_field_cited)

text \<open>
  In particular: the class that the statement of \<^verbatim>\<open>JobRequest\<close> creates requires
  \<^verbatim>\<open>payload\<close>, and validating the scenario's mapping with \<^verbatim>\<open>payload\<close> omitted fails
  citing the path \<^verbatim>\<open>["payload"]\<close>.
\<close>

theorem validate_missing_required_witness:
  "\<exists>S. exec_class module_scope JobRequest_decl = Inr S
     \<and> ''payload'' \<in> set (required_fields S)
     \<and> map_of without_payload ''payload'' = None
     \<and> fails_citing lax_conversion S without_payload [Key ''payload'']"
proof -
  let ?S = "PyClass ''JobRequest'' (Some [''id'', ''type'', ''payload'', ''metadata''])
       [FieldInfo ''id'' TStr None,
        FieldInfo ''type'' TStr None,
        FieldInfo ''priority'' TInt (Some (VInt 50)),
        FieldInfo ''payload'' (TDict TAny) None,
        FieldInfo ''metadata'' (TDict TAny) None,
        FieldInfo ''retryPolicy'' (TDict TAny)
          (Some (VDict [(''maxRetries'', VInt 3), (''backoffMs'', VInt 1000),
                        (''maxBackoffMs'', VInt 30000), (''backoffMultiplier'', VInt 2),
                        (''retryableCategories'', VList []),
                        (''nonRetryableCategories'', VList [])])),
        FieldInfo ''timeoutMs'' TFloat (Some (VInt 30000))]"
  have r: "''payload'' \<in> set (required_fields ?S)"
    by (simp add: required_fields_def)
  have m: "map_of without_payload ''payload'' = None"
    by (simp add: without_payload_def scenario_data_def)
  from validate_missing_required[OF r m]
  have "fails_citing lax_conversion ?S without_payload [Key ''payload'']" .
  with JobRequest_class r m show ?thesis by blast
qed

text \<open>
  C5. For every name that \<^verbatim>\<open>list_schemas()\<close> returns, \<^verbatim>\<open>get_schema(name)\<close> returns
  the class registered under that name; for every other string it fails with the
  schema-not-found error. The lookup is by exact match.
\<close>

theorem get_schema_exact_lookup:
  "(name \<in> set (list_schemas registry) \<longrightarrow>
      (\<exists>c. get_schema registry name = Inr c \<and> map_of registry name = Some c))
   \<and> (name \<notin> set (list_schemas registry) \<longrightarrow>
      get_schema registry name = Inl (KeyError (''Unknown schema: '' @ name)))"
  by (auto simp: get_schema_def list_schemas_def map_of_eq_None_iff split: option.splits)

text \<open>
  On the registry of the source, with each class referred to by its name:
  \<^verbatim>\<open>"JobRequest"\<close> is found, \<^verbatim>\<open>"jobrequest"\<close> is not.
\<close>

theorem get_schema_exact_lookup_witness:
  "''JobRequest'' \<in> set (list_schemas SCHEMA_REGISTRY)
   \<and> get_schema SCHEMA_REGISTRY ''JobRequest'' = Inr ''JobRequest''
   \<and> ''jobrequest'' \<notin> set (list_schemas SCHEMA_REGISTRY)
   \<and> get_schema SCHEMA_REGISTRY ''jobrequest'' = Inl (KeyError ''Unknown schema: jobrequest'')"
proof -
  have a: "''JobRequest'' \<in> set (list_schemas SCHEMA_REGISTRY)" by code_simp
  have b: "''jobrequest'' \<notin> set (list_schemas SCHEMA_REGISTRY)" by code_simp
  have m: "map_of SCHEMA_REGISTRY ''JobRequest'' = Some ''JobRequest''" by code_simp
  from get_schema_exact_lookup[of "''JobRequest''" SCHEMA_REGISTRY] a m
  have c: "get_schema SCHEMA_REGISTRY ''JobRequest'' = Inr ''JobRequest''" by auto
  from get_schema_exact_lookup[of "''jobrequest''" SCHEMA_REGISTRY] b
  have d: "get_schema SCHEMA_REGISTRY ''jobrequest'' = Inl (KeyError ''Unknown schema: jobrequest'')"
    by simp
  from a b c d show ?thesis by simp
qed

text \<open>
  C6. \<^verbatim>\<open>_default_headers\<close> is a function of the configuration and the contract version
  alone. Its result always has the \<^verbatim>\<open>Content-Type\<close> entry and the
  \<^verbatim>\<open>X-Contract-Version\<close> entry formatted \<^verbatim>\<open>major.minor.patch\<close>; with no token or an
  empty one there is no \<^verbatim>\<open>Authorization\<close> entry, and with a non-empty token there is
  exactly one, \<^verbatim>\<open>Bearer\<close> followed by the token. The client that \<^verbatim>\<open>__init__\<close> builds
  hands these headers to the HTTP library, with the version \<^verbatim>\<open>1.0.0\<close>.
\<close>

theorem default_headers_contents:
  "map_of (default_headers cfg v) ''Content-Type'' = Some ''application/json''
   \<and> map_of (default_headers cfg v) ''X-Contract-Version''
       = Some (str_int (major v) @ ''.'' @ str_int (minor v) @ ''.'' @ str_int (patch v))
   \<and> (api_key cfg = None \<or> api_key cfg = Some [] \<longrightarrow>
        map_of (default_headers cfg v) ''Authorization'' = None)
   \<and> (\<forall>token. api_key cfg = Some token \<and> token \<noteq> [] \<longrightarrow>
        filter (\<lambda>h. fst h = ''Authorization'') (default_headers cfg v)
          = [(''Authorization'', ''Bearer '' @ token)])
   \<and> client_headers (httpx (init cfg)) = default_headers cfg (contract_version (init cfg))
   \<and> map_of (client_headers (httpx (init cfg))) ''X-Contract-Version'' = Some ''1.0.0''"
  by (auto simp: default_headers_def serialize_version_def Let_def init_def str_int_def
                 str_nat.simps)

theorem default_headers_contents_witness:
  "default_headers cfg_token (contract_version (init cfg_token))
     = [(''Content-Type'', ''application/json''), (''X-Contract-Version'', ''1.0.0''),
        (''Authorization'', ''Bearer s3cret'')]
   \<and> filter (\<lambda>h. fst h = ''Authorization'')
        (default_headers cfg_token (contract_version (init cfg_token)))
       = [(''Authorization'', ''Bearer s3cret'')]
   \<and> map_of (default_headers cfg_empty_token (contract_version (init cfg_empty_token)))
        ''Authorization'' = None
   \<and> map_of (default_headers cfg_no_token (contract_version (init cfg_no_token)))
        ''Authorization'' = None"
proof -
  have t: "api_key cfg_token = Some ''s3cret'' \<and> ''s3cret'' \<noteq> []"
    by (simp add: cfg_token_def)
  have e: "api_key cfg_empty_token = None \<or> api_key cfg_empty_token = Some []"
    by (simp add: cfg_empty_token_def)
  have n: "api_key cfg_no_token = None \<or> api_key cfg_no_token = Some []"
    by (simp add: cfg_no_token_def)
  have 1: "filter (\<lambda>h. fst h = ''Authorization'')
        (default_headers cfg_token (contract_version (init cfg_token)))
       = [(''Authorization'', ''Bearer s3cret'')]"
    using default_headers_contents[of cfg_token "contract_version (init cfg_token)"] t by simp
  have 2: "map_of (default_headers cfg_empty_token (contract_version (init cfg_empty_token)))
        ''Authorization'' = None"
    using default_headers_contents[of cfg_empty_token "contract_version (init cfg_empty_token)"] e
    by blast
  have 3: "map_of (default_headers cfg_no_token (contract_version (init cfg_no_token)))
        ''Authorization'' = None"
    using default_headers_contents[of cfg_no_token "contract_version (init cfg_no_token)"] n
    by blast
  have 4: "default_headers cfg_token (contract_version (init cfg_token))
     = [(''Content-Type'', ''application/json''), (''X-Contract-Version'', ''1.0.0''),
        (''Authorization'', ''Bearer s3cret'')]"
    by (simp add: default_headers_def cfg_token_def init_def serialize_version_def str_int_def
                  str_nat.simps Let_def)
  from 1 2 3 4 show ?thesis by simp
qed

text \<open>
  C7. Keys of the data that the class does not declare are ignored: two mappings that agree
  on every declared key (one is the other with undeclared keys added or removed) validate
  to the same instance, or both fail citing the same paths; in particular validating a
  mapping and validating its restriction to the declared keys come out the same.
\<close>

theorem undeclared_keys_ignored:
  "((\<forall>k \<in> set (declared_fields S). map_of D' k = map_of D k) \<longrightarrow>
      outcome (validate conv S D') = outcome (validate conv S D))
   \<and> outcome (validate conv S D) = outcome (validate conv S (restrict_to S D))"
proof -
  have "\<forall>k \<in> set (declared_fields S). map_of D k = map_of (restrict_to S D) k"
    by (simp add: restrict_to_def map_of_filter_key[where P = "\<lambda>k. k \<in> set (declared_fields S)"])
  then show ?thesis using validate_agree by blast
qed

text \<open>
  The scenario's mapping with the keys \<^verbatim>\<open>traceId\<close> and \<^verbatim>\<open>debug\<close> added validates
  against the class of \<^verbatim>\<open>JobRequest\<close> to the instance of the mapping without them.
\<close>

theorem undeclared_keys_ignored_witness:
  "\<exists>S i. exec_class module_scope JobRequest_decl = Inr S
     \<and> validate lax_conversion S scenario_data = Inr i
     \<and> validate lax_conversion S with_extra_keys = Inr i
     \<and> restrict_to S with_extra_keys = scenario_data"
proof -
  let ?S = "PyClass ''JobRequest'' (Some [''id'', ''type'', ''payload'', ''metadata''])
       [FieldInfo ''id'' TStr None,
        FieldInfo ''type'' TStr None,
        FieldInfo ''priority'' TInt (Some (VInt 50)),
        FieldInfo ''payload'' (TDict TAny) None,
        FieldInfo ''metadata'' (TDict TAny) None,
        FieldInfo ''retryPolicy'' (TDict TAny)
          (Some (VDict [(''maxRetries'', VInt 3), (''backoffMs'', VInt 1000),
                        (''maxBackoffMs'', VInt 30000), (''backoffMultiplier'', VInt 2),
                        (''retryableCategories'', VList []),
                        (''nonRetryableCategories'', VList [])])),
        FieldInfo ''timeoutMs'' TFloat (Some (VInt 30000))]"
  have agree: "\<forall>k \<in> set (declared_fields ?S). map_of with_extra_keys k = map_of scenario_data k"
    by (simp add: declared_fields_def with_extra_keys_def scenario_data_def)
  from JobRequest_scenario_defaults obtain i where
    i: "validate lax_conversion ?S scenario_data = Inr i"
    by (simp add: validate_declared_def JobRequest_class)
  from undeclared_keys_ignored[of ?S with_extra_keys scenario_data lax_conversion] agree
  have "outcome (validate lax_conversion ?S with_extra_keys)
      = outcome (validate lax_conversion ?S scenario_data)" by blast
  with i have e: "validate lax_conversion ?S with_extra_keys = Inr i"
    by (cases "validate lax_conversion ?S with_extra_keys") auto
  have r: "restrict_to ?S with_extra_keys = scenario_data"
    by (simp add: restrict_to_def declared_fields_def with_extra_keys_def scenario_data_def)
  from JobRequest_class i e r show ?thesis by blast
qed







text \<open>
  C10. The methods \<^verbatim>\<open>ControlPlaneClient.validate\<close> and
  \<^verbatim>\<open>ControlPlaneClient.safe_validate\<close> return, for every model class and mapping,
  what the module-level functions \<^verbatim>\<open>validate\<close> and \<^verbatim>\<open>safe_validate\<close> return.
\<close>

theorem client_validation_equals_module_validation:
  "client_validate self conv M d = validate conv M d \<and>
   client_safe_validate self conv M d = safe_validate conv M d"
  by (simp add: client_validate_def validate_def client_safe_validate_def safe_validate_def)

end
